theory Spec2Isabelle
  imports Complex_Main
begin

section \<open>Arrays\<close>

text \<open>
  The script \<^verbatim>\<open>adversarial_depth.py\<close> works on numpy arrays. A numpy array is
  modelled by its shape together with its elements in row-major order; every array
  that numpy hands out satisfies \<open>wf_ndarray\<close>. An operation that raises in Python
  returns the error on the left of a sum.
\<close>

record 'a ndarray =
  shape :: "nat list"
  data :: "'a list"

definition wf_ndarray :: "'a ndarray \<Rightarrow> bool" where
  "wf_ndarray a \<longleftrightarrow> length (data a) = prod_list (shape a)"

datatype error =
    IndexError
  | ValueError
  | NameError
  | ExternalError string

text \<open>The \<open>i\<close>-th run of \<open>r\<close> consecutive elements of a flat list.\<close>

definition block :: "nat \<Rightarrow> nat \<Rightarrow> 'a list \<Rightarrow> 'a list" where
  "block r i xs = take r (drop (i * r) xs)"

text \<open>\<^verbatim>\<open>a[0]\<close>: the first item along axis 0.\<close>

definition getitem0 :: "'a ndarray \<Rightarrow> error + 'a ndarray" where
  "getitem0 a =
     (case shape a of
        [] \<Rightarrow> Inl IndexError
      | d # ds \<Rightarrow>
          if d = 0 then Inl IndexError
          else Inr \<lparr>shape = ds, data = block (prod_list ds) 0 (data a)\<rparr>)"

text \<open>\<^verbatim>\<open>a[:,:,k]\<close>: index \<open>k\<close> along axis 2, for \<open>k \<ge> 0\<close>.\<close>

definition getitem_axis2 :: "'a ndarray \<Rightarrow> nat \<Rightarrow> error + 'a ndarray" where
  "getitem_axis2 a k =
     (case shape a of
        d0 # d1 # d2 # rest \<Rightarrow>
          if k < d2
          then Inr \<lparr>shape = d0 # d1 # rest,
                    data = concat (map (\<lambda>i. block (prod_list rest) (i * d2 + k) (data a))
                                       [0..<d0 * d1])\<rparr>
          else Inl IndexError
      | _ \<Rightarrow> Inl IndexError)"

text \<open>\<^verbatim>\<open>np.stack((a, b, c), axis=2)\<close>.\<close>

definition stack3_axis2 :: "'a ndarray \<Rightarrow> 'a ndarray \<Rightarrow> 'a ndarray \<Rightarrow> error + 'a ndarray" where
  "stack3_axis2 a b c =
     (if shape b \<noteq> shape a \<or> shape c \<noteq> shape a then Inl ValueError
      else case shape a of
        d0 # d1 # rest \<Rightarrow>
          Inr \<lparr>shape = d0 # d1 # 3 # rest,
               data = concat (map (\<lambda>i. block (prod_list rest) i (data a)
                                        @ block (prod_list rest) i (data b)
                                        @ block (prod_list rest) i (data c))
                                  [0..<d0 * d1])\<rparr>
      | _ \<Rightarrow> Inl ValueError)"


section \<open>Elementwise arithmetic\<close>

text \<open>
  Array elements are real numbers: rounding, overflow and the special values of
  floating-point arithmetic are outside this model.

  Broadcasting aligns two shapes at their last axis; an axis of length 1 is repeated.
  \<open>broadcast_dims\<close> works on the reversed shapes.
\<close>

fun broadcast_dims :: "nat list \<Rightarrow> nat list \<Rightarrow> nat list option" where
  "broadcast_dims [] ys = Some ys"
| "broadcast_dims (x # xs) [] = Some (x # xs)"
| "broadcast_dims (x # xs) (y # ys) =
     (if x = y \<or> y = 1 then map_option ((#) x) (broadcast_dims xs ys)
      else if x = 1 then map_option ((#) y) (broadcast_dims xs ys)
      else None)"

definition broadcast_shapes :: "nat list \<Rightarrow> nat list \<Rightarrow> nat list option" where
  "broadcast_shapes s t = map_option rev (broadcast_dims (rev s) (rev t))"

fun expand :: "nat list \<Rightarrow> nat list \<Rightarrow> 'a list \<Rightarrow> 'a list" where
  "expand (s # ss) (t # ts) xs =
     (if s = t then concat (map (\<lambda>i. expand ss ts (block (prod_list ss) i xs)) [0..<s])
      else concat (replicate t (expand ss ts xs)))"
| "expand _ _ xs = xs"

definition broadcast_to :: "'a ndarray \<Rightarrow> nat list \<Rightarrow> 'a list" where
  "broadcast_to a t =
     expand (replicate (length t - length (shape a)) 1 @ shape a) t (data a)"

text \<open>
  \<^verbatim>\<open>a - b\<close> and the like. Arrays of one shape are combined element by element;
  otherwise both are broadcast to the common shape, if there is one.
\<close>

definition elementwise :: "('a \<Rightarrow> 'a \<Rightarrow> 'a) \<Rightarrow> 'a ndarray \<Rightarrow> 'a ndarray \<Rightarrow> error + 'a ndarray" where
  "elementwise f a b =
     (if shape a = shape b
      then Inr \<lparr>shape = shape a, data = map2 f (data a) (data b)\<rparr>
      else case broadcast_shapes (shape a) (shape b) of
             None \<Rightarrow> Inl ValueError
           | Some t \<Rightarrow> Inr \<lparr>shape = t, data = map2 f (broadcast_to a t) (broadcast_to b t)\<rparr>)"

text \<open>\<^verbatim>\<open>a -= b\<close>: the new contents of \<open>a\<close>; the result must fit the shape of \<open>a\<close>.\<close>

definition isub :: "real ndarray \<Rightarrow> real ndarray \<Rightarrow> error + real ndarray" where
  "isub a b =
     (case elementwise (-) a b of
        Inl e \<Rightarrow> Inl e
      | Inr c \<Rightarrow> if shape c = shape a then Inr c else Inl ValueError)"

text \<open>\<^verbatim>\<open>step_size * gradients\<close>: a scalar times an array.\<close>

definition scalar_mul :: "real \<Rightarrow> real ndarray \<Rightarrow> real ndarray" where
  "scalar_mul c a = \<lparr>shape = shape a, data = map (\<lambda>v. c * v) (data a)\<rparr>"

section \<open>The Keras backend operations the script uses\<close>

definition K_shape :: "'a ndarray \<Rightarrow> nat list" where
  "K_shape a = shape a"

definition K_cast :: "nat list \<Rightarrow> real list" where
  "K_cast ds = map real ds"

definition K_prod :: "real list \<Rightarrow> real" where
  "K_prod vs = prod_list vs"

definition K_square :: "real ndarray \<Rightarrow> real ndarray" where
  "K_square a = \<lparr>shape = shape a, data = map (\<lambda>v. v * v) (data a)\<rparr>"

definition K_sum :: "real ndarray \<Rightarrow> real" where
  "K_sum a = sum_list (data a)"

definition K_abs :: "real ndarray \<Rightarrow> real ndarray" where
  "K_abs a = \<lparr>shape = shape a, data = map abs (data a)\<rparr>"

text \<open>
  The mean is the sum over the number of elements. For a tensor without elements this is
  \<open>0 / 0\<close>, which is \<open>0\<close> here and not a number in floating-point arithmetic.
\<close>

definition K_mean :: "real ndarray \<Rightarrow> real" where
  "K_mean a = sum_list (data a) / real (length (data a))"

definition K_maximum :: "real \<Rightarrow> real \<Rightarrow> real" where
  "K_maximum x y = max x y"

text \<open>
  A symbolic tensor denotes a function of the array fed for \<^verbatim>\<open>model.input\<close>;
  evaluating it may fail.
\<close>

type_synonym 'a tensor = "real ndarray \<Rightarrow> error + 'a"

text \<open>
  What the script takes from the backend without computing it itself: the value of
  \<^verbatim>\<open>K.epsilon()\<close> and the automatic differentiation
  \<^verbatim>\<open>K.gradients(loss, model.input)[0]\<close>.
\<close>

record backend =
  K_epsilon :: real
  K_gradients :: "real tensor \<Rightarrow> error + real ndarray tensor"

text \<open>
  The \<^verbatim>\<open>DepthModelWrapper\<close> instance, an external collaborator; \<open>'m\<close> is its model.
  Each method either raises or returns; what it returns depends on its arguments only,
  a returned array is a new one, and an array passed to \<open>predict\<close> is only read.
\<close>

record 'm wrapper =
  initialize_model :: "error + 'm"
  load_image :: "string \<Rightarrow> error + real ndarray"
  predict :: "'m \<Rightarrow> real ndarray \<Rightarrow> error + real ndarray"
  get_final_layer :: "'m \<Rightarrow> error + real ndarray tensor"

section \<open>Program state\<close>

text \<open>
  The store holds the array objects that the script may mutate in place: the loaded input
  image and its copy. A variable such as \<^verbatim>\<open>input_image\<close> holds a reference
  into the store; arrays that are only read are passed as values. The trace lists, in
  program order, the calls that touch the outside world, the store or the module global:
  the calls of the wrapper and of \<^verbatim>\<open>K.set_learning_phase\<close>, the assignment
  of the global \<^verbatim>\<open>get_loss_and_gradients\<close>, \<^verbatim>\<open>copy()\<close>, the call
  of the global on an image, \<^verbatim>\<open>print\<close> with the loop index and the loss, the
  in-place subtraction, and the calls \<^verbatim>\<open>plt.figure\<close>,
  \<^verbatim>\<open>plt.imshow\<close> and \<^verbatim>\<open>plt.show\<close>, which are taken to return.
\<close>

type_synonym ref = nat

type_synonym evaluator = "real ndarray \<Rightarrow> error + real \<times> real ndarray"

datatype event =
    SetLearningPhase nat
  | InitializeModel
  | LoadImage string
  | Predict "real ndarray"
  | GetFinalLayer
  | AssignGlobal
  | Copy ref ref
  | Evaluate "real ndarray"
  | Print nat real
  | Update ref
  | Figure
  | Imshow "real ndarray"
  | Show

record state =
  heap :: "ref \<Rightarrow> real ndarray"
  next_ref :: ref
  get_loss_and_gradients :: "evaluator option"
  trace :: "event list"

text \<open>At process start the store is empty, the global is unbound and nothing has happened.\<close>

definition init_state :: state where
  "init_state = \<lparr>heap = (\<lambda>_. \<lparr>shape = [0], data = []\<rparr>), next_ref = 0,
                  get_loss_and_gradients = None, trace = []\<rparr>"

text \<open>
  A statement runs in a state and returns either the raised error or its value, along
  with the state reached. An error ends the enclosing sequence at once.
\<close>

type_synonym 'a prog = "state \<Rightarrow> (error + 'a) \<times> state"

definition ret :: "'a \<Rightarrow> 'a prog" where
  "ret x = (\<lambda>\<sigma>. (Inr x, \<sigma>))"

definition bind :: "'a prog \<Rightarrow> ('a \<Rightarrow> 'b prog) \<Rightarrow> 'b prog" where
  "bind m k = (\<lambda>\<sigma>. case m \<sigma> of (Inl e, \<sigma>') \<Rightarrow> (Inl e, \<sigma>') | (Inr x, \<sigma>') \<Rightarrow> k x \<sigma>')"

definition lift :: "error + 'a \<Rightarrow> 'a prog" where
  "lift r = (\<lambda>\<sigma>. (r, \<sigma>))"

definition log :: "event \<Rightarrow> unit prog" where
  "log ev = (\<lambda>\<sigma>. (Inr (), \<sigma>\<lparr>trace := trace \<sigma> @ [ev]\<rparr>))"

definition new_array :: "real ndarray \<Rightarrow> ref prog" where
  "new_array a =
     (\<lambda>\<sigma>. (Inr (next_ref \<sigma>),
           \<sigma>\<lparr>heap := (heap \<sigma>)(next_ref \<sigma> := a), next_ref := Suc (next_ref \<sigma>)\<rparr>))"

definition read_array :: "ref \<Rightarrow> real ndarray prog" where
  "read_array r = (\<lambda>\<sigma>. (Inr (heap \<sigma> r), \<sigma>))"

definition write_array :: "ref \<Rightarrow> real ndarray \<Rightarrow> unit prog" where
  "write_array r a = (\<lambda>\<sigma>. (Inr (), \<sigma>\<lparr>heap := (heap \<sigma>)(r := a)\<rparr>))"

text \<open>\<^verbatim>\<open>a.copy()\<close>: a new array with the contents of \<open>a\<close>.\<close>

definition copy :: "ref \<Rightarrow> ref prog" where
  "copy r =
     bind (read_array r) (\<lambda>a.
     bind (new_array a) (\<lambda>r'.
     bind (log (Copy r r')) (\<lambda>_.
     ret r')))"

text \<open>\<^verbatim>\<open>a -= b\<close> on the array object \<open>r\<close>.\<close>

definition isub_array :: "ref \<Rightarrow> real ndarray \<Rightarrow> unit prog" where
  "isub_array r b =
     bind (read_array r) (\<lambda>a.
     bind (lift (isub a b)) (\<lambda>c.
     bind (write_array r c) (\<lambda>_.
     log (Update r))))"

text \<open>Calls of the wrapper's methods.\<close>

definition call_initialize_model :: "'m wrapper \<Rightarrow> 'm prog" where
  "call_initialize_model w = bind (log InitializeModel) (\<lambda>_. lift (initialize_model w))"

definition call_load_image :: "'m wrapper \<Rightarrow> string \<Rightarrow> real ndarray prog" where
  "call_load_image w path = bind (log (LoadImage path)) (\<lambda>_. lift (load_image w path))"

definition call_predict :: "'m wrapper \<Rightarrow> 'm \<Rightarrow> real ndarray \<Rightarrow> real ndarray prog" where
  "call_predict w model img = bind (log (Predict img)) (\<lambda>_. lift (predict w model img))"

definition call_get_final_layer :: "'m wrapper \<Rightarrow> 'm \<Rightarrow> real ndarray tensor prog" where
  "call_get_final_layer w model = bind (log GetFinalLayer) (\<lambda>_. lift (get_final_layer w model))"

section \<open>The script\<close>

definition SINK_IMAGE :: string where
  "SINK_IMAGE =
     ''/usr/local/google/home/ellenj/Documents/BigPicture/DenseDepth/examples/1_image.png''"

definition BATHTUB_IMAGE :: string where
  "BATHTUB_IMAGE =
     ''/usr/local/google/home/ellenj/Documents/BigPicture/DenseDepth/examples/11_image.png''"

text \<open>The loaded sink image becomes an array object of the store; it is mutated later.\<close>

definition get_sink_to_bathtub_inputs :: "'m wrapper \<Rightarrow> 'm \<Rightarrow> (ref \<times> real ndarray) prog" where
  "get_sink_to_bathtub_inputs depth_model_wrapper model =
     bind (call_load_image depth_model_wrapper SINK_IMAGE) (\<lambda>sink.
     bind (new_array sink) (\<lambda>input_image.
     bind (call_load_image depth_model_wrapper BATHTUB_IMAGE) (\<lambda>bathtub.
     bind (call_predict depth_model_wrapper model bathtub) (\<lambda>target_depth_output.
     ret (input_image, target_depth_output)))))"

section \<open>Display helpers\<close>

definition to_multichannel :: "'a ndarray \<Rightarrow> error + 'a ndarray" where
  "to_multichannel img =
     (if length (shape img) < 3 then Inl IndexError
      else if shape img ! 2 = 3 then Inr img
      else case getitem_axis2 img 0 of
             Inl e \<Rightarrow> Inl e
           | Inr img' \<Rightarrow> stack3_axis2 img' img' img')"



definition display_image :: "real ndarray \<Rightarrow> bool \<Rightarrow> unit prog" where
  "display_image img is_input =
     bind (log Figure) (\<lambda>_.
     bind (if is_input
           then bind (lift (getitem0 img)) (\<lambda>img0.
                bind (lift (to_multichannel img0)) (\<lambda>shown.
                log (Imshow shown)))
           else bind (lift (getitem0 img)) (\<lambda>img0.
                bind (lift (getitem_axis2 img0 0)) (\<lambda>rescaled.
                log (Imshow rescaled)))) (\<lambda>_.
     log Show))"

definition display :: "'m wrapper \<Rightarrow> 'm \<Rightarrow> ref \<Rightarrow> ref \<Rightarrow> unit prog" where
  "display depth_model_wrapper model original_image altered_image =
     bind (read_array original_image) (\<lambda>original.
     bind (call_predict depth_model_wrapper model original) (\<lambda>original_output.
     bind (read_array altered_image) (\<lambda>altered.
     bind (call_predict depth_model_wrapper model altered) (\<lambda>altered_output.
     bind (bind (read_array original_image) (\<lambda>a. display_image a True)) (\<lambda>_.
     bind (display_image original_output False) (\<lambda>_.
     bind (bind (read_array altered_image) (\<lambda>a. display_image a True)) (\<lambda>_.
     display_image altered_output False)))))))"

section \<open>The optimisation loop\<close>

text \<open>Reading the module global raises \<open>NameError\<close> while it is unbound.\<close>

definition retrieve_loss_and_gradients :: "ref \<Rightarrow> (real \<times> real ndarray) prog" where
  "retrieve_loss_and_gradients input_image =
     (\<lambda>\<sigma>. case get_loss_and_gradients \<sigma> of
             None \<Rightarrow> (Inl NameError, \<sigma>)
           | Some f \<Rightarrow>
               bind (read_array input_image) (\<lambda>x.
               bind (log (Evaluate x)) (\<lambda>_.
               lift (f x))) \<sigma>)"

text \<open>The body of the \<^verbatim>\<open>for\<close> loop, for the loop index \<open>i\<close>.\<close>

definition gradient_step :: "ref \<Rightarrow> real \<Rightarrow> nat \<Rightarrow> unit prog" where
  "gradient_step input_image step_size i =
     bind (retrieve_loss_and_gradients input_image) (\<lambda>(loss, gradients).
     bind (log (Print i loss)) (\<lambda>_.
     isub_array input_image (scalar_mul step_size gradients)))"

fun gradient_loop :: "ref \<Rightarrow> real \<Rightarrow> nat list \<Rightarrow> unit prog" where
  "gradient_loop input_image step_size [] = ret ()"
| "gradient_loop input_image step_size (i # is) =
     bind (gradient_step input_image step_size i) (\<lambda>_.
     gradient_loop input_image step_size is)"

text \<open>\<^verbatim>\<open>range(iterations)\<close> is empty for a negative count.\<close>

definition gradient_ascent :: "ref \<Rightarrow> int \<Rightarrow> real \<Rightarrow> ref prog" where
  "gradient_ascent input_image iterations step_size =
     bind (gradient_loop input_image step_size [0..<nat iterations]) (\<lambda>_.
     ret input_image)"

section \<open>Loss, gradient and the whole run\<close>

text \<open>
  The script builds the loss and its gradient as symbolic tensors. Their construction
  is taken to succeed, apart from \<^verbatim>\<open>K.gradients\<close>; a shape mismatch
  shows when the compiled function is evaluated.
\<close>

text \<open>Line 150: the product of the dimensions of the final layer, as a real number.\<close>

definition scale_factor :: "real ndarray \<Rightarrow> real" where
  "scale_factor final_layer_output = K_prod (K_cast (K_shape final_layer_output))"

text \<open>Line 152 at given values of the final layer and of the target.\<close>

definition loss_value :: "real ndarray \<Rightarrow> real ndarray \<Rightarrow> error + real" where
  "loss_value final_layer_output goal_output =
     (case elementwise (-) final_layer_output goal_output of
        Inl e \<Rightarrow> Inl e
      | Inr d \<Rightarrow> Inr (K_sum (K_square d) / scale_factor final_layer_output))"

definition loss_tensor :: "real ndarray tensor \<Rightarrow> real ndarray \<Rightarrow> real tensor" where
  "loss_tensor final_layer_output goal_output =
     (\<lambda>x. case final_layer_output x of
             Inl e \<Rightarrow> Inl e
           | Inr y \<Rightarrow> loss_value y goal_output)"

text \<open>Line 154: the divisor, and the gradient divided by it.\<close>

definition divisor :: "real \<Rightarrow> real ndarray \<Rightarrow> real" where
  "divisor eps gradients = K_maximum (K_mean (K_abs gradients)) eps"

definition normalize :: "real \<Rightarrow> real ndarray \<Rightarrow> real ndarray" where
  "normalize eps gradients =
     \<lparr>shape = shape gradients, data = map (\<lambda>v. v / divisor eps gradients) (data gradients)\<rparr>"

definition normalized_tensor :: "real \<Rightarrow> real ndarray tensor \<Rightarrow> real ndarray tensor" where
  "normalized_tensor eps gradients =
     (\<lambda>x. case gradients x of Inl e \<Rightarrow> Inl e | Inr g \<Rightarrow> Inr (normalize eps g))"

text \<open>\<^verbatim>\<open>K.function([model.input], [loss, gradients])\<close>.\<close>

definition K_function :: "real tensor \<Rightarrow> real ndarray tensor \<Rightarrow> evaluator" where
  "K_function loss gradients =
     (\<lambda>x. case loss x of
             Inl e \<Rightarrow> Inl e
           | Inr l \<Rightarrow> (case gradients x of Inl e \<Rightarrow> Inl e | Inr g \<Rightarrow> Inr (l, g)))"

definition assign_global :: "evaluator \<Rightarrow> unit prog" where
  "assign_global f =
     (\<lambda>\<sigma>. (Inr (), \<sigma>\<lparr>get_loss_and_gradients := Some f, trace := trace \<sigma> @ [AssignGlobal]\<rparr>))"

text \<open>
  The entry point. In the script \<^verbatim>\<open>iterations\<close> defaults to 100 and
  \<^verbatim>\<open>step_size\<close> to 0.001; here both are always given.
\<close>

definition generate_adversarial_example ::
    "'m wrapper \<Rightarrow> backend \<Rightarrow> int \<Rightarrow> real \<Rightarrow> unit prog" where
  "generate_adversarial_example depth_model_wrapper K iterations step_size =
     bind (log (SetLearningPhase 0)) (\<lambda>_.
     bind (call_initialize_model depth_model_wrapper) (\<lambda>model.
     bind (get_sink_to_bathtub_inputs depth_model_wrapper model) (\<lambda>(input_image, goal_output).
     bind (call_get_final_layer depth_model_wrapper model) (\<lambda>final_layer_output.
     bind (lift (K_gradients K (loss_tensor final_layer_output goal_output))) (\<lambda>gradients.
     bind (assign_global (K_function (loss_tensor final_layer_output goal_output)
                            (normalized_tensor (K_epsilon K) gradients))) (\<lambda>_.
     bind (copy input_image) (\<lambda>original_image.
     bind (gradient_ascent input_image iterations step_size) (\<lambda>altered_image.
     display depth_model_wrapper model original_image altered_image))))))))"

section \<open>Notions used to state the properties\<close>

text \<open>
  One sequential update \<open>input \<leftarrow> input - s \<times> gradient\<close>, element by element, for a
  gradient given as a function of the image.
\<close>

definition sequential_update ::
    "real \<Rightarrow> (real ndarray \<Rightarrow> real ndarray) \<Rightarrow> real ndarray \<Rightarrow> real ndarray" where
  "sequential_update s grad x =
     \<lparr>shape = shape x, data = map2 (\<lambda>a g. a - s * g) (data x) (data (grad x))\<rparr>"

text \<open>The events of a loop over the indices \<open>is\<close> that starts at the image \<open>x\<close>.\<close>

fun loop_trace ::
    "ref \<Rightarrow> (real ndarray \<Rightarrow> real) \<Rightarrow> (real ndarray \<Rightarrow> real ndarray) \<Rightarrow> real ndarray \<Rightarrow> nat list
       \<Rightarrow> event list" where
  "loop_trace r loss upd x [] = []"
| "loop_trace r loss upd x (i # is) =
     [Evaluate x, Print i (loss x), Update r] @ loop_trace r loss upd (upd x) is"



text \<open>The events that the loop on the array object \<open>r\<close> can produce.\<close>

fun loop_event :: "ref \<Rightarrow> event \<Rightarrow> bool" where
  "loop_event r (Evaluate x) = True"
| "loop_event r (Print i l) = True"
| "loop_event r (Update r') = (r' = r)"
| "loop_event r _ = False"

text \<open>
  What the loop on \<open>r\<close> may change: it appends loop events, and leaves the global, the
  allocation pointer and every other array object as they are.
\<close>

definition loop_frame :: "ref \<Rightarrow> state \<Rightarrow> state \<Rightarrow> bool" where
  "loop_frame r \<sigma> \<sigma>' \<longleftrightarrow>
     (\<exists>new. trace \<sigma>' = trace \<sigma> @ new \<and> list_all (loop_event r) new) \<and>
     get_loss_and_gradients \<sigma>' = get_loss_and_gradients \<sigma> \<and>
     next_ref \<sigma>' = next_ref \<sigma> \<and>
     (\<forall>r'. r' \<noteq> r \<longrightarrow> heap \<sigma>' r' = heap \<sigma> r')"

text \<open>The array that \<open>display_image\<close> hands to \<^verbatim>\<open>plt.imshow\<close>.\<close>

definition shown :: "real ndarray \<Rightarrow> bool \<Rightarrow> error + real ndarray" where
  "shown img is_input =
     (case getitem0 img of
        Inl e \<Rightarrow> Inl e
      | Inr img0 \<Rightarrow> if is_input then to_multichannel img0 else getitem_axis2 img0 0)"

fun display_event :: "event \<Rightarrow> bool" where
  "display_event (Predict x) = True"
| "display_event Figure = True"
| "display_event (Imshow x) = True"
| "display_event Show = True"
| "display_event _ = False"

text \<open>The events of a set-up that succeeds, up to the construction of the loss.\<close>

definition setup_trace :: "real ndarray \<Rightarrow> event list" where
  "setup_trace b =
     [SetLearningPhase 0, InitializeModel, LoadImage SINK_IMAGE, LoadImage BATHTUB_IMAGE,
      Predict b, GetFinalLayer]"

subsection \<open>Broadcasting, index by index\<close>

text \<open>
  The rule of numpy and of the backend for an elementwise operation on arrays of
  different shapes, stated on indices and independently of \<open>broadcast_shapes\<close>,
  \<open>expand\<close> and \<open>broadcast_to\<close>: the shorter shape is padded with ones on the left;
  the shapes have a common shape if, dimension by dimension, they agree or one of them
  is 1, and the common shape takes the dimension that is not 1.
\<close>

definition left_pad :: "nat \<Rightarrow> nat list \<Rightarrow> nat list" where
  "left_pad n s = replicate (n - length s) 1 @ s"

definition common_shape :: "nat list \<Rightarrow> nat list \<Rightarrow> nat list option" where
  "common_shape s1 s2 =
     (let n = max (length s1) (length s2); a = left_pad n s1; b = left_pad n s2
      in if list_all2 (\<lambda>x y. x = y \<or> x = 1 \<or> y = 1) a b
         then Some (map2 (\<lambda>x y. if x = 1 then y else x) a b)
         else None)"

text \<open>The indices of an array of shape \<open>t\<close>, in row-major order.\<close>

fun indices :: "nat list \<Rightarrow> nat list list" where
  "indices [] = [[]]"
| "indices (d # ds) = concat (map (\<lambda>i. map ((#) i) (indices ds)) [0..<d])"

text \<open>The position in the row-major data of the element at an index.\<close>

fun offset :: "nat list \<Rightarrow> nat list \<Rightarrow> nat" where
  "offset (d # ds) (i # is) = i * prod_list ds + offset ds is"
| "offset _ _ = 0"

text \<open>
  The element that an array \<open>a\<close> contributes at the index \<open>idx\<close> of the common shape
  \<open>t\<close>: along a dimension of size 1 its only element is used at every index.
\<close>

definition source_index :: "nat list \<Rightarrow> nat list \<Rightarrow> nat list" where
  "source_index s idx = map2 (\<lambda>d i. if d = 1 then 0 else i) s idx"

definition aligned_shape :: "'a ndarray \<Rightarrow> nat list \<Rightarrow> nat list" where
  "aligned_shape a t = replicate (length t - length (shape a)) 1 @ shape a"

definition broadcast_element :: "'a ndarray \<Rightarrow> nat list \<Rightarrow> nat list \<Rightarrow> 'a" where
  "broadcast_element a t idx =
     data a ! offset (aligned_shape a t) (source_index (aligned_shape a t) idx)"

text \<open>A shape that can be broadcast to the shape \<open>t\<close> of the same rank.\<close>

definition compatible :: "nat list \<Rightarrow> nat list \<Rightarrow> bool" where
  "compatible s t \<longleftrightarrow> list_all2 (\<lambda>a b. a = b \<or> a = 1) s t"

section \<open>Concrete inputs\<close>




text \<open>
  A toy wrapper. Its model and its final layer map an image to the one-element array of
  the sum of its elements; the two image files hold one pixel of three channels each.
\<close>

definition toy_wrapper :: "unit wrapper" where
  "toy_wrapper =
     \<lparr>initialize_model = Inr (),
      load_image = (\<lambda>path.
        if path = SINK_IMAGE then Inr \<lparr>shape = [1, 1, 1, 3], data = [4, 2, 1]\<rparr>
        else if path = BATHTUB_IMAGE then Inr \<lparr>shape = [1, 1, 1, 3], data = [0, 0, 0]\<rparr>
        else Inl (ExternalError ''file not found'')),
      predict = (\<lambda>model x. Inr \<lparr>shape = [1, 1, 1, 1], data = [sum_list (data x)]\<rparr>),
      get_final_layer =
        (\<lambda>model. Inr (\<lambda>x. Inr \<lparr>shape = [1, 1, 1, 1], data = [sum_list (data x)]\<rparr>))\<rparr>"

text \<open>The gradient of the square of the sum of the elements, and the default floor.\<close>

definition toy_backend :: backend where
  "toy_backend =
     \<lparr>K_epsilon = 1 / 10000000,
      K_gradients = (\<lambda>loss. Inr (\<lambda>x.
        Inr \<lparr>shape = shape x, data = map (\<lambda>v. 2 * sum_list (data x)) (data x)\<rparr>))\<rparr>"

text \<open>
  Wrappers that fail: at the first image file (\<open>k = 0\<close>), at the second (\<open>k = 1\<close>),
  in \<open>predict\<close> (\<open>k = 2\<close>).
\<close>

definition broken_wrapper :: "nat \<Rightarrow> unit wrapper" where
  "broken_wrapper k =
     \<lparr>initialize_model = Inr (),
      load_image = (\<lambda>path.
        if (k = 0 \<and> path = SINK_IMAGE) \<or> (k = 1 \<and> path = BATHTUB_IMAGE)
        then Inl (ExternalError ''file not found'')
        else load_image toy_wrapper path),
      predict = (\<lambda>model x.
        if k = 2 then Inl (ExternalError ''predict failed'') else predict toy_wrapper model x),
      get_final_layer = get_final_layer toy_wrapper\<rparr>"

text \<open>A state in which object 0 holds an altered image and object 1 the original.\<close>

definition toy_display_state :: state where
  "toy_display_state =
     \<lparr>heap = (\<lambda>_. \<lparr>shape = [0], data = []\<rparr>)
               (0 := \<lparr>shape = [1, 1, 1, 3], data = [3, 1, 0]\<rparr>,
                1 := \<lparr>shape = [1, 1, 1, 3], data = [4, 2, 1]\<rparr>),
      next_ref = 2,
      get_loss_and_gradients = None,
      trace = []\<rparr>"

section \<open>Facts about blocks of a flat list\<close>

lemma concat_blocks_take:
  "n * r \<le> length xs \<Longrightarrow> concat (map (\<lambda>i. block r i xs) [0..<n]) = take (n * r) xs"
proof (induction n)
  case 0
  then show ?case by simp
next
  case (Suc n)
  then have IH: "concat (map (\<lambda>i. block r i xs) [0..<n]) = take (n * r) xs" by simp
  have "take (Suc n * r) xs = take (n * r) xs @ take r (drop (n * r) xs)"
    using take_add [of "n * r" r xs] by (simp add: add.commute)
  with IH show ?case by (simp add: block_def)
qed

lemma drop_concat_uniform:
  "\<forall>ys \<in> set yss. length ys = r \<Longrightarrow> drop (j * r) (concat yss) = concat (drop j yss)"
proof (induction yss arbitrary: j)
  case Nil
  then show ?case by simp
next
  case (Cons ys yss)
  then show ?case by (cases j) simp_all
qed

lemma block_concat:
  assumes "\<And>i. i < n \<Longrightarrow> length (f i) = r" and "j < n"
  shows "block r j (concat (map f [0..<n])) = f j"
proof -
  have "drop (j * r) (concat (map f [0..<n])) = concat (drop j (map f [0..<n]))"
    using assms(1) by (intro drop_concat_uniform) auto
  also have "drop j (map f [0..<n]) = map f [j..<n]"
    by (simp add: drop_map)
  also have "[j..<n] = j # [Suc j..<n]"
    using assms(2) by (rule upt_conv_Cons)
  finally show ?thesis using assms by (simp add: block_def)
qed

lemma length_block: "(Suc i) * r \<le> length xs \<Longrightarrow> length (block r i xs) = r"
  by (simp add: block_def)

lemma block_of_block:
  assumes "k < m"
  shows "block r (i * m + k) xs = block r k (block (m * r) i xs)"
proof -
  have "(i * m + k) * r = i * (m * r) + k * r" by (simp add: algebra_simps)
  then have "drop ((i * m + k) * r) xs = drop (k * r) (drop (i * (m * r)) xs)"
    by (simp add: add.commute)
  moreover have "r \<le> m * r - k * r"
  proof -
    have "Suc k \<le> m" using assms by simp
    then have "Suc k * r \<le> m * r" by (rule mult_le_mono1)
    then show ?thesis by simp
  qed
  ultimately show ?thesis by (simp add: block_def drop_take min_def)
qed


lemma length_concat_uniform:
  "(\<And>i. i < n \<Longrightarrow> length (f i) = r) \<Longrightarrow> length (concat (map f [0..<n])) = n * r"
  by (induction n) simp_all

lemma block_triple:
  assumes "length ys = r" and "k < 3"
  shows "block r k (ys @ ys @ ys) = ys"
proof -
  from assms(2) consider "k = 0" | "k = 1" | "k = 2" by linarith
  then show ?thesis using assms(1) by cases (simp_all add: block_def)
qed

lemma channel_block_length:
  assumes "length xs = d0 * d1 * d2 * r" and "i < d0 * d1" and "k < d2"
  shows "length (block r (i * d2 + k) xs) = r"
proof -
  have "Suc (i * d2 + k) \<le> Suc i * d2" using assms(3) by simp
  also have "\<dots> \<le> (d0 * d1) * d2" using assms(2) by (intro mult_le_mono1) simp
  finally have "Suc (i * d2 + k) * r \<le> (d0 * d1 * d2) * r" by (rule mult_le_mono1)
  then show ?thesis using assms(1) by (intro length_block) simp
qed

lemma getitem_axis2_wf:
  assumes "shape a = d0 # d1 # d2 # rest" and "wf_ndarray a" and "k < d2"
  shows "\<exists>b. getitem_axis2 a k = Inr b \<and> shape b = d0 # d1 # rest \<and> wf_ndarray b"
proof -
  have len: "length (data a) = d0 * d1 * d2 * prod_list rest"
    using assms(1,2) by (simp add: wf_ndarray_def)
  have "length (concat (map (\<lambda>i. block (prod_list rest) (i * d2 + k) (data a)) [0..<d0 * d1]))
        = d0 * d1 * prod_list rest"
    using len assms(3) by (intro length_concat_uniform channel_block_length)
  then show ?thesis using assms(1,3) by (simp add: getitem_axis2_def wf_ndarray_def)
qed

lemma stack3_axis2_same:
  assumes "shape a = d0 # d1 # rest" and "wf_ndarray a"
  shows "\<exists>out. stack3_axis2 a a a = Inr out \<and> shape out = d0 # d1 # 3 # rest \<and> wf_ndarray out
           \<and> (\<forall>k<3. getitem_axis2 out k = Inr a)"
proof -
  define r where "r = prod_list rest"
  define n where "n = d0 * d1"
  define B where "B = (\<lambda>i. block r i (data a))"
  define S where "S = concat (map (\<lambda>i. B i @ B i @ B i) [0..<n])"
  define out where "out = \<lparr>shape = d0 # d1 # 3 # rest, data = S\<rparr>"
  have len: "length (data a) = n * r"
    using assms by (simp add: wf_ndarray_def n_def r_def)
  have lenB: "length (B i) = r" if "i < n" for i
  proof -
    have "Suc i * r \<le> n * r" using that by (intro mult_le_mono1) simp
    then show ?thesis unfolding B_def using len by (intro length_block) simp
  qed
  have lenG: "length (B i @ B i @ B i) = 3 * r" if "i < n" for i
    using lenB [OF that] by simp
  have st: "stack3_axis2 a a a = Inr out"
    using assms(1) by (simp add: stack3_axis2_def out_def S_def B_def r_def n_def)
  have "length S = n * (3 * r)"
    unfolding S_def using lenG by (rule length_concat_uniform)
  then have wf: "wf_ndarray out"
    by (simp add: wf_ndarray_def out_def n_def r_def)
  have chan: "getitem_axis2 out k = Inr a" if "k < 3" for k
  proof -
    have blk: "block r (i * 3 + k) S = B i" if "i < n" for i
    proof -
      have "block r (i * 3 + k) S = block r k (block (3 * r) i S)"
        using \<open>k < 3\<close> by (rule block_of_block)
      also have "block (3 * r) i S = B i @ B i @ B i"
        unfolding S_def using lenG that by (rule block_concat)
      also have "block r k (B i @ B i @ B i) = B i"
        using lenB [OF that] \<open>k < 3\<close> by (rule block_triple)
      finally show ?thesis .
    qed
    have "concat (map (\<lambda>i. block r (i * 3 + k) S) [0..<n]) = concat (map B [0..<n])"
      using blk by (intro arg_cong [where f = concat] map_cong) simp_all
    also have "\<dots> = take (n * r) (data a)"
      unfolding B_def using len by (intro concat_blocks_take) simp
    also have "\<dots> = data a" using len by simp
    finally have "concat (map (\<lambda>i. block r (i * 3 + k) S) [0..<n]) = data a" .
    then show ?thesis
      using that assms(1) by (simp add: getitem_axis2_def out_def r_def n_def)
  qed
  from st wf chan show ?thesis by (auto simp: out_def)
qed

section \<open>Properties of \<open>to_multichannel\<close>\<close>

lemma to_multichannel_three:
  "shape img = h # w # 3 # rest \<Longrightarrow> to_multichannel img = Inr img"
  by (simp add: to_multichannel_def)

lemma to_multichannel_broadcast:
  assumes "shape img = h # w # c # rest" and "wf_ndarray img" and "c \<noteq> 3" and "0 < c"
  shows "\<exists>ch0 out. getitem_axis2 img 0 = Inr ch0 \<and> stack3_axis2 ch0 ch0 ch0 = Inr out
           \<and> to_multichannel img = Inr out \<and> shape out = h # w # 3 # rest \<and> wf_ndarray out
           \<and> (\<forall>k<3. getitem_axis2 out k = Inr ch0)"
proof -
  from getitem_axis2_wf [OF assms(1,2,4)] obtain ch0
    where ch0: "getitem_axis2 img 0 = Inr ch0" "shape ch0 = h # w # rest" "wf_ndarray ch0"
    by blast
  from stack3_axis2_same [OF ch0(2,3)] obtain out
    where out: "stack3_axis2 ch0 ch0 ch0 = Inr out" "shape out = h # w # 3 # rest"
      "wf_ndarray out" "\<forall>k<3. getitem_axis2 out k = Inr ch0"
    by blast
  have "to_multichannel img = Inr out"
    using assms(1,3) ch0(1) out(1) by (simp add: to_multichannel_def)
  with ch0(1) out show ?thesis by blast
qed

lemma to_multichannel_zero_channels:
  "shape img = h # w # 0 # rest \<Longrightarrow> to_multichannel img = Inl IndexError"
  by (simp add: to_multichannel_def getitem_axis2_def)

text \<open>
  Claim C5. \<open>to_multichannel\<close> returns an image whose channel dimension (axis 2) is 3
  unchanged, so applying it again changes nothing; and for every image with one channel
  it returns an image of the same height and width with 3 channels, each of which
  is the single channel of the input.
\<close>

theorem to_multichannel_idempotent_and_broadcast:
  "(shape img = h # w # 3 # rest \<longrightarrow> to_multichannel img = Inr img) \<and>
   (shape img = h # w # 1 # rest \<and> wf_ndarray img \<longrightarrow>
      (\<exists>out. to_multichannel img = Inr out \<and> shape out = h # w # 3 # rest \<and> wf_ndarray out
         \<and> (\<forall>k<3. getitem_axis2 out k = getitem_axis2 img 0)))"
proof (intro conjI impI)
  assume "shape img = h # w # 3 # rest"
  then show "to_multichannel img = Inr img" by (rule to_multichannel_three)
next
  assume a: "shape img = h # w # 1 # rest \<and> wf_ndarray img"
  have "\<exists>ch0 out. getitem_axis2 img 0 = Inr ch0 \<and> stack3_axis2 ch0 ch0 ch0 = Inr out
           \<and> to_multichannel img = Inr out \<and> shape out = h # w # 3 # rest \<and> wf_ndarray out
           \<and> (\<forall>k<3. getitem_axis2 out k = Inr ch0)"
    using a to_multichannel_broadcast [of img h w 1 rest] by simp
  then show "\<exists>out. to_multichannel img = Inr out \<and> shape out = h # w # 3 # rest \<and> wf_ndarray out
         \<and> (\<forall>k<3. getitem_axis2 out k = getitem_axis2 img 0)"
    by auto
qed

theorem to_multichannel_idempotent_and_broadcast_witness:
  "to_multichannel \<lparr>shape = [1, 2, 3], data = [1, 2, 3, 4, 5, 6 :: real]\<rparr>
     = Inr \<lparr>shape = [1, 2, 3], data = [1, 2, 3, 4, 5, 6]\<rparr> \<and>
   wf_ndarray \<lparr>shape = [2, 1, 1], data = [7, 9 :: real]\<rparr> \<and>
   (\<exists>out. to_multichannel \<lparr>shape = [2, 1, 1], data = [7, 9 :: real]\<rparr> = Inr out
      \<and> shape out = [2, 1, 3] \<and> wf_ndarray out
      \<and> (\<forall>k<3. getitem_axis2 out k = getitem_axis2 \<lparr>shape = [2, 1, 1], data = [7, 9]\<rparr> 0))"
  using to_multichannel_idempotent_and_broadcast
          [of "\<lparr>shape = [1, 2, 3], data = [1, 2, 3, 4, 5, 6 :: real]\<rparr>" 1 2 "[]"]
        to_multichannel_idempotent_and_broadcast
          [of "\<lparr>shape = [2, 1, 1], data = [7, 9 :: real]\<rparr>" 2 1 "[]"]
  by (simp add: wf_ndarray_def)

lemma image_has_channel:
  assumes "shape img = h # w # c # rest" and "wf_ndarray img" and "data img \<noteq> []"
  shows "0 < c"
proof (rule ccontr)
  assume "\<not> 0 < c"
  then have "prod_list (shape img) = 0" using assms(1) by simp
  then show False using assms(2,3) by (simp add: wf_ndarray_def)
qed

text \<open>
  Claim C10. For every image whose channel dimension is other than 3 (2 or 4 as well
  as 1), \<open>to_multichannel\<close> takes channel 0 and returns, without an error, the stack of
  three copies of it: the result is computed from channel 0 alone, so that the other
  channels are discarded, it has 3 channels, and each of them is channel 0 of the
  input. An image is an array that holds at least one element; more generally, the
  array may be any that has a channel 0.
\<close>

theorem to_multichannel_keeps_channel_zero:
  assumes "shape img = h # w # c # rest" and "wf_ndarray img" and "c \<noteq> 3"
    and "data img \<noteq> [] \<or> 0 < c"
  shows "\<exists>ch0 out. getitem_axis2 img 0 = Inr ch0 \<and> stack3_axis2 ch0 ch0 ch0 = Inr out
           \<and> to_multichannel img = Inr out \<and> shape out = h # w # 3 # rest
           \<and> (\<forall>k<3. getitem_axis2 out k = Inr ch0)"
proof -
  have "0 < c"
    using assms(4) image_has_channel [OF assms(1,2)] by blast
  with assms(1-3) show ?thesis
    using to_multichannel_broadcast [of img h w c rest] by blast
qed

theorem to_multichannel_keeps_channel_zero_witness:
  "wf_ndarray \<lparr>shape = [2, 2, 2], data = [1, 2, 3, 4, 5, 6, 7, 8 :: real]\<rparr> \<and> (2::nat) \<noteq> 3 \<and>
   [1, 2, 3, 4, 5, 6, 7, 8 :: real] \<noteq> [] \<and>
   (\<exists>ch0 out. getitem_axis2 \<lparr>shape = [2, 2, 2], data = [1, 2, 3, 4, 5, 6, 7, 8 :: real]\<rparr> 0
                  = Inr ch0
      \<and> stack3_axis2 ch0 ch0 ch0 = Inr out
      \<and> to_multichannel \<lparr>shape = [2, 2, 2], data = [1, 2, 3, 4, 5, 6, 7, 8 :: real]\<rparr> = Inr out
      \<and> shape out = [2, 2, 3]
      \<and> (\<forall>k<3. getitem_axis2 out k = Inr ch0)) \<and>
   getitem_axis2 \<lparr>shape = [2, 2, 2], data = [1, 2, 3, 4, 5, 6, 7, 8 :: real]\<rparr> 0
     = Inr \<lparr>shape = [2, 2], data = [1, 3, 5, 7]\<rparr> \<and>
   to_multichannel \<lparr>shape = [2, 2, 2], data = [1, 2, 3, 4, 5, 6, 7, 8 :: real]\<rparr>
     = Inr \<lparr>shape = [2, 2, 3], data = [1, 1, 1, 3, 3, 3, 5, 5, 5, 7, 7, 7]\<rparr>"
proof -
  have g: "getitem_axis2 \<lparr>shape = [2, 2, 2], data = [1, 2, 3, 4, 5, 6, 7, 8 :: real]\<rparr> 0
             = Inr \<lparr>shape = [2, 2], data = [1, 3, 5, 7]\<rparr>"
    by (simp add: getitem_axis2_def block_def upt_conv_Cons)
  have s: "stack3_axis2 \<lparr>shape = [2, 2], data = [1, 3, 5, 7 :: real]\<rparr>
             \<lparr>shape = [2, 2], data = [1, 3, 5, 7]\<rparr> \<lparr>shape = [2, 2], data = [1, 3, 5, 7]\<rparr>
             = Inr \<lparr>shape = [2, 2, 3], data = [1, 1, 1, 3, 3, 3, 5, 5, 5, 7, 7, 7]\<rparr>"
    by (simp add: stack3_axis2_def block_def upt_conv_Cons)
  have t: "to_multichannel \<lparr>shape = [2, 2, 2], data = [1, 2, 3, 4, 5, 6, 7, 8 :: real]\<rparr>
             = Inr \<lparr>shape = [2, 2, 3], data = [1, 1, 1, 3, 3, 3, 5, 5, 5, 7, 7, 7]\<rparr>"
    by (simp add: to_multichannel_def g s)
  show ?thesis
    using to_multichannel_keeps_channel_zero
            [of "\<lparr>shape = [2, 2, 2], data = [1, 2, 3, 4, 5, 6, 7, 8 :: real]\<rparr>" 2 2 2 "[]"] g t
    by (simp add: wf_ndarray_def)
qed
section \<open>Running statements\<close>

lemma bind_ret [simp]: "bind (ret x) k \<sigma> = k x \<sigma>"
  by (simp add: bind_def ret_def)

lemma bind_lift_Inr [simp]: "bind (lift (Inr x)) k \<sigma> = k x \<sigma>"
  by (simp add: bind_def lift_def)

lemma bind_lift_Inl [simp]: "bind (lift (Inl e)) k \<sigma> = (Inl e, \<sigma>)"
  by (simp add: bind_def lift_def)

lemma bind_log [simp]: "bind (log ev) k \<sigma> = k () (\<sigma>\<lparr>trace := trace \<sigma> @ [ev]\<rparr>)"
  by (simp add: bind_def log_def)

lemma bind_read_array [simp]: "bind (read_array r) k \<sigma> = k (heap \<sigma> r) \<sigma>"
  by (simp add: bind_def read_array_def)

lemma bind_write_array [simp]:
  "bind (write_array r a) k \<sigma> = k () (\<sigma>\<lparr>heap := (heap \<sigma>)(r := a)\<rparr>)"
  by (simp add: bind_def write_array_def)

lemma bind_new_array [simp]:
  "bind (new_array a) k \<sigma> =
     k (next_ref \<sigma>) (\<sigma>\<lparr>heap := (heap \<sigma>)(next_ref \<sigma> := a), next_ref := Suc (next_ref \<sigma>)\<rparr>)"
  by (simp add: bind_def new_array_def)

lemma log_apply: "log ev \<sigma> = (Inr (), \<sigma>\<lparr>trace := trace \<sigma> @ [ev]\<rparr>)"
  by (simp add: log_def)

lemma ret_apply: "ret x \<sigma> = (Inr x, \<sigma>)"
  by (simp add: ret_def)

lemma lift_apply: "lift r \<sigma> = (r, \<sigma>)"
  by (simp add: lift_def)

lemma bind_assoc: "bind (bind m f) g = bind m (\<lambda>x. bind (f x) g)"
  by (auto simp: bind_def fun_eq_iff split: prod.splits sum.splits)

lemma bind_Inl: "m \<sigma> = (Inl e, \<sigma>') \<Longrightarrow> bind m k \<sigma> = (Inl e, \<sigma>')"
  by (simp add: bind_def)

lemma bind_Inr: "m \<sigma> = (Inr x, \<sigma>') \<Longrightarrow> bind m k \<sigma> = k x \<sigma>'"
  by (simp add: bind_def)

lemma isub_same_shape:
  "shape g = shape x \<Longrightarrow>
   isub x (scalar_mul s g) =
     Inr \<lparr>shape = shape x, data = map2 (\<lambda>a g. a - s * g) (data x) (data g)\<rparr>"
  by (simp add: isub_def elementwise_def scalar_mul_def zip_map2 case_prod_unfold)

lemma retrieve_loss_and_gradients_bound:
  "get_loss_and_gradients \<sigma> = Some f \<Longrightarrow>
   retrieve_loss_and_gradients r \<sigma> = (f (heap \<sigma> r), \<sigma>\<lparr>trace := trace \<sigma> @ [Evaluate (heap \<sigma> r)]\<rparr>)"
  by (simp add: retrieve_loss_and_gradients_def lift_apply)

lemma retrieve_loss_and_gradients_unbound:
  "get_loss_and_gradients \<sigma> = None \<Longrightarrow> retrieve_loss_and_gradients r \<sigma> = (Inl NameError, \<sigma>)"
  by (simp add: retrieve_loss_and_gradients_def)

lemma isub_array_ok:
  "isub (heap \<sigma> r) b = Inr c \<Longrightarrow>
   isub_array r b \<sigma> = (Inr (), \<sigma>\<lparr>heap := (heap \<sigma>)(r := c), trace := trace \<sigma> @ [Update r]\<rparr>)"
  by (simp add: isub_array_def log_apply)

lemma isub_array_error:
  "isub (heap \<sigma> r) b = Inl e \<Longrightarrow> isub_array r b \<sigma> = (Inl e, \<sigma>)"
  by (simp add: isub_array_def)

lemma gradient_step_ok:
  assumes "get_loss_and_gradients \<sigma> = Some (\<lambda>x. Inr (loss x, grad x))"
    and "shape (grad (heap \<sigma> r)) = shape (heap \<sigma> r)"
  shows "gradient_step r s i \<sigma> =
           (Inr (), \<sigma>\<lparr>heap := (heap \<sigma>)(r := sequential_update s grad (heap \<sigma> r)),
                      trace := trace \<sigma> @ [Evaluate (heap \<sigma> r), Print i (loss (heap \<sigma> r)), Update r]\<rparr>)"
proof -
  let ?x = "heap \<sigma> r"
  let ?\<sigma>1 = "\<sigma>\<lparr>trace := trace \<sigma> @ [Evaluate ?x]\<rparr>"
  let ?\<sigma>2 = "?\<sigma>1\<lparr>trace := trace ?\<sigma>1 @ [Print i (loss ?x)]\<rparr>"
  have r: "retrieve_loss_and_gradients r \<sigma> = (Inr (loss ?x, grad ?x), ?\<sigma>1)"
    using assms(1) by (simp add: retrieve_loss_and_gradients_bound)
  have "isub (heap ?\<sigma>2 r) (scalar_mul s (grad ?x)) = Inr (sequential_update s grad ?x)"
    using assms(2) by (simp add: isub_same_shape sequential_update_def)
  then have "isub_array r (scalar_mul s (grad ?x)) ?\<sigma>2 =
      (Inr (), ?\<sigma>2\<lparr>heap := (heap ?\<sigma>2)(r := sequential_update s grad ?x),
                    trace := trace ?\<sigma>2 @ [Update r]\<rparr>)"
    by (rule isub_array_ok)
  then show ?thesis
    using r by (simp add: gradient_step_def bind_Inr)
qed

lemma gradient_loop_ok:
  assumes "get_loss_and_gradients \<sigma> = Some (\<lambda>x. Inr (loss x, grad x))"
    and "\<forall>x. shape (grad x) = shape x"
  shows "gradient_loop r s is \<sigma> =
           (Inr (), \<sigma>\<lparr>heap := (heap \<sigma>)(r := (sequential_update s grad ^^ length is) (heap \<sigma> r)),
                      trace := trace \<sigma> @ loop_trace r loss (sequential_update s grad) (heap \<sigma> r) is\<rparr>)"
  using assms(1)
proof (induction "is" arbitrary: \<sigma>)
  case Nil
  then show ?case by (simp add: ret_apply)
next
  case (Cons i "is")
  let ?U = "sequential_update s grad"
  let ?\<sigma>1 = "\<sigma>\<lparr>heap := (heap \<sigma>)(r := ?U (heap \<sigma> r)),
                      trace := trace \<sigma> @ [Evaluate (heap \<sigma> r), Print i (loss (heap \<sigma> r)), Update r]\<rparr>"
  have step: "gradient_step r s i \<sigma> = (Inr (), ?\<sigma>1)"
    using Cons.prems assms(2) by (intro gradient_step_ok) simp_all
  have bound: "get_loss_and_gradients ?\<sigma>1 = Some (\<lambda>x. Inr (loss x, grad x))"
    using Cons.prems by simp
  have "gradient_loop r s (i # is) \<sigma> = gradient_loop r s is ?\<sigma>1"
    using step by (simp add: bind_Inr)
  also have "\<dots> = (Inr (), ?\<sigma>1\<lparr>heap := (heap ?\<sigma>1)(r := (?U ^^ length is) (heap ?\<sigma>1 r)),
                      trace := trace ?\<sigma>1 @ loop_trace r loss ?U (heap ?\<sigma>1 r) is\<rparr>)"
    using bound by (rule Cons.IH)
  also have "heap ?\<sigma>1 r = ?U (heap \<sigma> r)" by simp
  also have "(heap ?\<sigma>1)(r := (?U ^^ length is) (?U (heap \<sigma> r)))
             = (heap \<sigma>)(r := (?U ^^ length (i # is)) (heap \<sigma> r))"
    by (simp add: funpow_swap1)
  finally show ?case by simp
qed



lemma loop_trace_upt:
  "loop_trace r loss upd ((upd ^^ k) x) [k..<k + m] =
     concat (map (\<lambda>t. [Evaluate ((upd ^^ t) x), Print t (loss ((upd ^^ t) x)), Update r])
                 [k..<k + m])"
proof (induction m arbitrary: k)
  case 0
  show ?case by simp
next
  case (Suc m)
  have "[k..<k + Suc m] = k # [Suc k..<Suc k + m]"
    by (simp add: upt_conv_Cons)
  moreover have "upd ((upd ^^ k) x) = (upd ^^ Suc k) x" by simp
  ultimately show ?case using Suc [of "Suc k"] by (simp del: funpow.simps)
qed


lemma gradient_ascent_ok:
  assumes "get_loss_and_gradients \<sigma> = Some (\<lambda>x. Inr (loss x, grad x))"
    and "\<forall>x. shape (grad x) = shape x"
  shows "gradient_ascent r iterations s \<sigma> =
           (Inr r, \<sigma>\<lparr>heap := (heap \<sigma>)(r := (sequential_update s grad ^^ nat iterations) (heap \<sigma> r)),
                     trace := trace \<sigma> @
                       concat (map (\<lambda>t. [Evaluate ((sequential_update s grad ^^ t) (heap \<sigma> r)),
                                           Print t (loss ((sequential_update s grad ^^ t) (heap \<sigma> r))),
                                           Update r])
                                   [0..<nat iterations])\<rparr>)"
proof -
  have "loop_trace r loss (sequential_update s grad) (heap \<sigma> r) [0..<nat iterations] =
          concat (map (\<lambda>t. [Evaluate ((sequential_update s grad ^^ t) (heap \<sigma> r)),
                              Print t (loss ((sequential_update s grad ^^ t) (heap \<sigma> r))),
                              Update r])
                      [0..<nat iterations])"
    using loop_trace_upt [of r loss "sequential_update s grad" 0 "heap \<sigma> r" "nat iterations"]
    by simp
  then show ?thesis
    using gradient_loop_ok [OF assms, of r s "[0..<nat iterations]"]
    by (simp add: gradient_ascent_def bind_Inr ret_apply)
qed

lemma loop_frame_refl: "loop_frame r \<sigma> \<sigma>"
  by (simp add: loop_frame_def)

lemma loop_frame_trans:
  "loop_frame r \<sigma> \<sigma>1 \<Longrightarrow> loop_frame r \<sigma>1 \<sigma>2 \<Longrightarrow> loop_frame r \<sigma> \<sigma>2"
  by (auto simp: loop_frame_def)

lemma gradient_step_frame: "loop_frame r \<sigma> (snd (gradient_step r s i \<sigma>))"
proof (cases "get_loss_and_gradients \<sigma>")
  case None
  then show ?thesis
    by (simp add: gradient_step_def bind_def retrieve_loss_and_gradients_unbound loop_frame_def)
next
  case (Some f)
  let ?x = "heap \<sigma> r"
  let ?\<sigma>1 = "\<sigma>\<lparr>trace := trace \<sigma> @ [Evaluate ?x]\<rparr>"
  have r: "retrieve_loss_and_gradients r \<sigma> = (f ?x, ?\<sigma>1)"
    using Some by (rule retrieve_loss_and_gradients_bound)
  show ?thesis
  proof (cases "f ?x")
    case (Inl e)
    then show ?thesis using r by (simp add: gradient_step_def bind_def loop_frame_def)
  next
    case (Inr lg)
    obtain l g where lg: "lg = (l, g)" by (cases lg)
    let ?\<sigma>2 = "?\<sigma>1\<lparr>trace := trace ?\<sigma>1 @ [Print i l]\<rparr>"
    have step: "gradient_step r s i \<sigma> = isub_array r (scalar_mul s g) ?\<sigma>2"
      using r Inr lg by (simp add: gradient_step_def bind_Inr)
    show ?thesis
    proof (cases "isub (heap ?\<sigma>2 r) (scalar_mul s g)")
      case (Inl e)
      then show ?thesis unfolding step
        by (simp add: isub_array_error loop_frame_def)
    next
      case (Inr c)
      then show ?thesis unfolding step
        by (simp add: isub_array_ok loop_frame_def)
    qed
  qed
qed

lemma gradient_loop_frame: "loop_frame r \<sigma> (snd (gradient_loop r s is \<sigma>))"
proof (induction "is" arbitrary: \<sigma>)
  case Nil
  show ?case by (simp add: ret_apply loop_frame_refl)
next
  case (Cons i "is")
  show ?case
  proof (cases "gradient_step r s i \<sigma>")
    case (Pair res \<sigma>1)
    then have f1: "loop_frame r \<sigma> \<sigma>1"
      using gradient_step_frame [of r \<sigma> s i] by simp
    show ?thesis
    proof (cases res)
      case (Inl e)
      then show ?thesis using Pair f1 by (simp add: bind_Inl)
    next
      case (Inr u)
      then have "gradient_loop r s (i # is) \<sigma> = gradient_loop r s is \<sigma>1"
        using Pair by (simp add: bind_Inr)
      then show ?thesis
        using loop_frame_trans [OF f1 Cons [of \<sigma>1]] by simp
    qed
  qed
qed

lemma gradient_ascent_frame:
  "loop_frame r \<sigma> (snd (gradient_ascent r iterations s \<sigma>))"
  "fst (gradient_ascent r iterations s \<sigma>) = Inr r' \<Longrightarrow> r' = r"
proof -
  obtain res \<sigma>1 where run: "gradient_loop r s [0..<nat iterations] \<sigma> = (res, \<sigma>1)"
    by (cases "gradient_loop r s [0..<nat iterations] \<sigma>")
  then have f: "loop_frame r \<sigma> \<sigma>1"
    using gradient_loop_frame [of r \<sigma> s "[0..<nat iterations]"] by simp
  show "loop_frame r \<sigma> (snd (gradient_ascent r iterations s \<sigma>))"
    using run f by (cases res) (simp_all add: gradient_ascent_def bind_def ret_def)
  show "fst (gradient_ascent r iterations s \<sigma>) = Inr r' \<Longrightarrow> r' = r"
    using run by (cases res) (simp_all add: gradient_ascent_def bind_def ret_def)
qed

lemma display_image_eq:
  "display_image img is_input \<sigma> =
     (case shown img is_input of
        Inl e \<Rightarrow> (Inl e, \<sigma>\<lparr>trace := trace \<sigma> @ [Figure]\<rparr>)
      | Inr x \<Rightarrow> (Inr (), \<sigma>\<lparr>trace := trace \<sigma> @ [Figure, Imshow x, Show]\<rparr>))"
  by (cases "getitem0 img"; cases is_input; cases "to_multichannel (projr (getitem0 img))";
      cases "getitem_axis2 (projr (getitem0 img)) 0")
     (simp_all add: display_image_def shown_def log_apply bind_assoc)

section \<open>Display and set-up\<close>

lemma bind_lift:
  "bind (lift r) k \<sigma> = (case r of Inl e \<Rightarrow> (Inl e, \<sigma>) | Inr x \<Rightarrow> k x \<sigma>)"
  by (cases r) simp_all

lemma bind_display_image:
  "bind (display_image img is_input) k \<sigma> =
     (case shown img is_input of
        Inl e \<Rightarrow> (Inl e, \<sigma>\<lparr>trace := trace \<sigma> @ [Figure]\<rparr>)
      | Inr x \<Rightarrow> k () (\<sigma>\<lparr>trace := trace \<sigma> @ [Figure, Imshow x, Show]\<rparr>))"
  by (simp add: bind_def display_image_eq split: sum.splits)

lemma display_ok:
  assumes "predict w m (heap \<sigma> orig) = Inr oo" and "predict w m (heap \<sigma> alt) = Inr ao"
    and "shown (heap \<sigma> orig) True = Inr x1" and "shown oo False = Inr x2"
    and "shown (heap \<sigma> alt) True = Inr x3" and "shown ao False = Inr x4"
  shows "display w m orig alt \<sigma> =
           (Inr (), \<sigma>\<lparr>trace := trace \<sigma> @
              [Predict (heap \<sigma> orig), Predict (heap \<sigma> alt),
               Figure, Imshow x1, Show, Figure, Imshow x2, Show,
               Figure, Imshow x3, Show, Figure, Imshow x4, Show]\<rparr>)"
  using assms
  by (simp add: display_def call_predict_def bind_assoc bind_display_image display_image_eq)

lemma display_returns:
  assumes "fst (display w m orig alt \<sigma>) = Inr ()"
  shows "\<exists>oo ao x1 x2 x3 x4.
           predict w m (heap \<sigma> orig) = Inr oo \<and> predict w m (heap \<sigma> alt) = Inr ao \<and>
           shown (heap \<sigma> orig) True = Inr x1 \<and> shown oo False = Inr x2 \<and>
           shown (heap \<sigma> alt) True = Inr x3 \<and> shown ao False = Inr x4"
  using assms
  by (simp add: display_def call_predict_def bind_assoc bind_lift bind_display_image
      display_image_eq split: sum.splits)

lemma display_frame:
  "get_loss_and_gradients (snd (display w m orig alt \<sigma>)) = get_loss_and_gradients \<sigma>"
  "\<exists>new. trace (snd (display w m orig alt \<sigma>)) = trace \<sigma> @ new \<and> list_all display_event new"
  by (simp_all add: display_def call_predict_def bind_assoc bind_lift bind_display_image
      display_image_eq split: sum.splits)

lemma call_load_image_apply:
  "bind (call_load_image w p) k \<sigma> =
     (case load_image w p of
        Inl e \<Rightarrow> (Inl e, \<sigma>\<lparr>trace := trace \<sigma> @ [LoadImage p]\<rparr>)
      | Inr a \<Rightarrow> k a (\<sigma>\<lparr>trace := trace \<sigma> @ [LoadImage p]\<rparr>))"
  by (simp add: call_load_image_def bind_assoc bind_lift)

lemma call_predict_apply:
  "bind (call_predict w m x) k \<sigma> =
     (case predict w m x of
        Inl e \<Rightarrow> (Inl e, \<sigma>\<lparr>trace := trace \<sigma> @ [Predict x]\<rparr>)
      | Inr y \<Rightarrow> k y (\<sigma>\<lparr>trace := trace \<sigma> @ [Predict x]\<rparr>))"
  by (simp add: call_predict_def bind_assoc bind_lift)

lemma get_sink_to_bathtub_inputs_eq:
  "get_sink_to_bathtub_inputs w m \<sigma> =
     (case load_image w SINK_IMAGE of
        Inl e \<Rightarrow> (Inl e, \<sigma>\<lparr>trace := trace \<sigma> @ [LoadImage SINK_IMAGE]\<rparr>)
      | Inr a \<Rightarrow>
         (case load_image w BATHTUB_IMAGE of
            Inl e \<Rightarrow>
              (Inl e, \<sigma>\<lparr>heap := (heap \<sigma>)(next_ref \<sigma> := a), next_ref := Suc (next_ref \<sigma>),
                         trace := trace \<sigma> @ [LoadImage SINK_IMAGE, LoadImage BATHTUB_IMAGE]\<rparr>)
          | Inr b \<Rightarrow>
             (case predict w m b of
                Inl e \<Rightarrow>
                  (Inl e, \<sigma>\<lparr>heap := (heap \<sigma>)(next_ref \<sigma> := a), next_ref := Suc (next_ref \<sigma>),
                             trace := trace \<sigma> @
                               [LoadImage SINK_IMAGE, LoadImage BATHTUB_IMAGE, Predict b]\<rparr>)
              | Inr goal \<Rightarrow>
                  (Inr (next_ref \<sigma>, goal),
                   \<sigma>\<lparr>heap := (heap \<sigma>)(next_ref \<sigma> := a), next_ref := Suc (next_ref \<sigma>),
                      trace := trace \<sigma> @
                        [LoadImage SINK_IMAGE, LoadImage BATHTUB_IMAGE, Predict b]\<rparr>))))"
  by (simp add: get_sink_to_bathtub_inputs_def call_load_image_apply call_predict_apply
      ret_apply split: sum.splits)

lemma generate_aborts_with_inputs:
  assumes "initialize_model w = Inr m"
    and "get_sink_to_bathtub_inputs w m
           (\<sigma>\<lparr>trace := trace \<sigma> @ [SetLearningPhase 0, InitializeModel]\<rparr>) = (Inl e, \<sigma>')"
  shows "generate_adversarial_example w K iterations s \<sigma> = (Inl e, \<sigma>')"
  using assms
  by (simp add: generate_adversarial_example_def call_initialize_model_def bind_assoc bind_Inl)

lemma generate_aborts_at_initialize:
  assumes "initialize_model w = Inl e"
  shows "generate_adversarial_example w K iterations s \<sigma> =
           (Inl e, \<sigma>\<lparr>trace := trace \<sigma> @ [SetLearningPhase 0, InitializeModel]\<rparr>)"
  using assms
  by (simp add: generate_adversarial_example_def call_initialize_model_def bind_assoc)

lemma generate_setup_ok:
  assumes "initialize_model w = Inr m"
    and "load_image w SINK_IMAGE = Inr a"
    and "load_image w BATHTUB_IMAGE = Inr b"
    and "predict w m b = Inr goal"
    and "get_final_layer w m = Inr fl"
    and "K_gradients K (loss_tensor fl goal) = Inr gr"
  shows "generate_adversarial_example w K iterations s \<sigma> =
           bind (gradient_ascent (next_ref \<sigma>) iterations s)
                (\<lambda>altered_image. display w m (Suc (next_ref \<sigma>)) altered_image)
             (\<sigma>\<lparr>get_loss_and_gradients :=
                  Some (K_function (loss_tensor fl goal) (normalized_tensor (K_epsilon K) gr)),
                heap := (heap \<sigma>)(next_ref \<sigma> := a, Suc (next_ref \<sigma>) := a),
                next_ref := Suc (Suc (next_ref \<sigma>)),
                trace := trace \<sigma> @ setup_trace b @
                           [AssignGlobal, Copy (next_ref \<sigma>) (Suc (next_ref \<sigma>))]\<rparr>)"
proof -
  let ?\<sigma>0 = "\<sigma>\<lparr>trace := trace \<sigma> @ [SetLearningPhase 0, InitializeModel]\<rparr>"
  have "get_sink_to_bathtub_inputs w m ?\<sigma>0 =
          (Inr (next_ref \<sigma>, goal),
           \<sigma>\<lparr>heap := (heap \<sigma>)(next_ref \<sigma> := a), next_ref := Suc (next_ref \<sigma>),
              trace := trace \<sigma> @ [SetLearningPhase 0, InitializeModel,
                         LoadImage SINK_IMAGE, LoadImage BATHTUB_IMAGE, Predict b]\<rparr>)"
    using assms(2,3,4) by (simp add: get_sink_to_bathtub_inputs_eq)
  then show ?thesis
    using assms(1,5,6)
    by (simp add: generate_adversarial_example_def call_initialize_model_def
        call_get_final_layer_def bind_assoc bind_Inr assign_global_def copy_def setup_trace_def
        bind_def [of "\<lambda>\<sigma>. (Inr (), \<sigma>\<lparr>get_loss_and_gradients := Some _, trace := _\<rparr>)"])
qed

section \<open>The update law and the iteration count\<close>







section \<open>The loss and the normalisation\<close>

lemma prod_list_map_real: "prod_list (map real ds) = real (prod_list ds)"
  by (induction ds) simp_all

lemma scale_factor_count: "wf_ndarray y \<Longrightarrow> scale_factor y = real (length (data y))"
  by (simp add: scale_factor_def K_prod_def K_cast_def K_shape_def prod_list_map_real wf_ndarray_def)

lemma sum_list_squared_differences:
  fixes ys gs :: "real list"
  assumes "length ys = length gs"
  shows "sum_list (map (\<lambda>v. v * v) (map2 (-) ys gs)) = (\<Sum>i<length ys. (ys ! i - gs ! i)\<^sup>2)"
proof -
  have "sum_list (map (\<lambda>v. v * v) (map2 (-) ys gs))
          = (\<Sum>i = 0..<length ys. map (\<lambda>v. v * v) (map2 (-) ys gs) ! i)"
    using assms by (simp add: sum_list_sum_nth)
  also have "\<dots> = (\<Sum>i = 0..<length ys. (ys ! i - gs ! i)\<^sup>2)"
    using assms by (intro sum.cong) (simp_all add: power2_eq_square)
  finally show ?thesis by (simp add: atLeast0LessThan)
qed

lemma loss_value_same_shape:
  assumes "wf_ndarray y" and "wf_ndarray goal" and "shape goal = shape y"
  shows "loss_value y goal =
           Inr ((\<Sum>i<length (data y). (data y ! i - data goal ! i)\<^sup>2) / real (length (data y)))"
proof -
  have len: "length (data y) = length (data goal)"
    using assms by (simp add: wf_ndarray_def)
  have "loss_value y goal =
          Inr (sum_list (map (\<lambda>v. v * v) (map2 (-) (data y) (data goal))) / scale_factor y)"
    using assms(3) by (simp add: loss_value_def elementwise_def K_sum_def K_square_def)
  also have "sum_list (map (\<lambda>v. v * v) (map2 (-) (data y) (data goal)))
               = (\<Sum>i<length (data y). (data y ! i - data goal ! i)\<^sup>2)"
    using len by (rule sum_list_squared_differences)
  also have "scale_factor y = real (length (data y))"
    using assms(1) by (rule scale_factor_count)
  finally show ?thesis .
qed

subsection \<open>Broadcasting computes the elements index by index\<close>

lemma indices_bounds: "idx \<in> set (indices t) \<Longrightarrow> list_all2 (<) idx t"
  by (induction t arbitrary: idx) auto

lemma offset_bound: "list_all2 (<) js ds \<Longrightarrow> offset ds js < prod_list ds"
proof (induction js ds rule: list_all2_induct)
  case Nil
  show ?case by simp
next
  case (Cons i js d ds)
  have "i * prod_list ds + offset ds js < i * prod_list ds + prod_list ds"
    using Cons.IH by simp
  also have "\<dots> = Suc i * prod_list ds" by simp
  also have "\<dots> \<le> d * prod_list ds"
    using Cons.hyps(1) by (intro mult_le_mono1) simp
  finally show ?case by simp
qed

lemma source_index_bounds:
  "compatible s t \<Longrightarrow> list_all2 (<) idx t \<Longrightarrow> list_all2 (<) (source_index s idx) s"
  unfolding compatible_def source_index_def
proof (induction s t arbitrary: idx rule: list_all2_induct)
  case Nil
  then show ?case by simp
next
  case (Cons a s b t)
  then show ?case by (cases idx) auto
qed

lemma block_nth:
  "Suc i * r \<le> length xs \<Longrightarrow> k < r \<Longrightarrow> block r i xs ! k = xs ! (i * r + k)"
  by (simp add: block_def)

lemma expand_elements:
  "compatible s t \<Longrightarrow> length xs = prod_list s \<Longrightarrow>
   expand s t xs = map (\<lambda>idx. xs ! offset s (source_index s idx)) (indices t)"
proof (induction s t xs rule: expand.induct)
  case (1 s ss t ts xs)
  from "1.prems"(1) have hd: "s = t \<or> s = 1" and tl: "compatible ss ts"
    by (simp_all add: compatible_def)
  let ?p = "prod_list ss"
  have elt: "map (\<lambda>idx. ys ! offset ss (source_index ss idx)) (indices ts)
             = map (\<lambda>idx. xs ! (j * ?p + offset ss (source_index ss idx))) (indices ts)"
    if ys: "ys = block ?p j xs" and j: "Suc j * ?p \<le> length xs" for ys j
  proof (intro map_cong refl)
    fix idx assume "idx \<in> set (indices ts)"
    then have "offset ss (source_index ss idx) < ?p"
      using tl by (intro offset_bound source_index_bounds indices_bounds)
    then show "ys ! offset ss (source_index ss idx)
                 = xs ! (j * ?p + offset ss (source_index ss idx))"
      unfolding ys using j by (intro block_nth)
  qed
  show ?case
  proof (cases "s = t")
    case True
    have len: "length xs = t * ?p" using "1.prems"(2) True by simp
    have step: "expand ss ts (block ?p i xs)
                  = map (\<lambda>idx. xs ! offset (s # ss) (source_index (s # ss) (i # idx))) (indices ts)"
      if i: "i < t" for i
    proof -
      have le: "Suc i * ?p \<le> length xs"
        unfolding len using i by (intro mult_le_mono1) simp
      then have lb: "length (block ?p i xs) = prod_list ss" by (rule length_block)
      have "expand ss ts (block ?p i xs)
              = map (\<lambda>idx. block ?p i xs ! offset ss (source_index ss idx)) (indices ts)"
        using True i tl lb by (intro "1.IH"(1)) simp_all
      also have "\<dots> = map (\<lambda>idx. xs ! (i * ?p + offset ss (source_index ss idx))) (indices ts)"
        using le by (intro elt) simp_all
      also have "\<dots> = map (\<lambda>idx. xs ! offset (s # ss) (source_index (s # ss) (i # idx))) (indices ts)"
        using i True by (auto simp: source_index_def)
      finally show ?thesis .
    qed
    have "expand (s # ss) (t # ts) xs
            = concat (map (\<lambda>i. expand ss ts (block ?p i xs)) [0..<t])"
      using True by simp
    also have "\<dots> = concat (map (\<lambda>i. map (\<lambda>idx. xs ! offset (s # ss) (source_index (s # ss) (i # idx)))
                                        (indices ts)) [0..<t])"
      using step by (intro arg_cong [where f = concat] map_cong) simp_all
    also have "\<dots> = map (\<lambda>idx. xs ! offset (s # ss) (source_index (s # ss) idx)) (indices (t # ts))"
      by (simp add: map_concat comp_def)
    finally show ?thesis .
  next
    case False
    then have s1: "s = 1" using hd by simp
    have len: "length xs = ?p" using "1.prems"(2) s1 by simp
    have "expand ss ts xs = map (\<lambda>idx. xs ! offset ss (source_index ss idx)) (indices ts)"
      using False tl len by (intro "1.IH"(2)) simp_all
    then have "expand (s # ss) (t # ts) xs
            = concat (replicate t (map (\<lambda>idx. xs ! offset ss (source_index ss idx)) (indices ts)))"
      using False by simp
    also have "\<dots> = concat (map (\<lambda>i. map (\<lambda>idx. xs ! offset (s # ss) (source_index (s # ss) (i # idx)))
                                        (indices ts)) [0..<t])"
      using s1 by (simp add: source_index_def map_replicate_const)
    also have "\<dots> = map (\<lambda>idx. xs ! offset (s # ss) (source_index (s # ss) idx)) (indices (t # ts))"
      by (simp add: map_concat comp_def)
    finally show ?thesis .
  qed
next
  fix t :: "nat list" and xs :: "'a list"
  assume "compatible [] t" and "length xs = prod_list []"
  then show "expand [] t xs = map (\<lambda>idx. xs ! offset [] (source_index [] idx)) (indices t)"
    by (cases t; cases xs) (simp_all add: compatible_def source_index_def)
next
  fix s :: "nat list" and xs :: "'a list"
  assume "compatible s []" and "length xs = prod_list s"
  then show "expand s [] xs = map (\<lambda>idx. xs ! offset s (source_index s idx)) (indices [])"
    by (cases xs) (simp_all add: compatible_def)
qed
lemma broadcast_dims_compatible:
  "broadcast_dims xs ys = Some zs \<Longrightarrow>
     compatible (xs @ replicate (length zs - length xs) 1) zs \<and>
     compatible (ys @ replicate (length zs - length ys) 1) zs"
proof (induction xs ys arbitrary: zs rule: broadcast_dims.induct)
  case (1 ys)
  then show ?case
    by (auto simp: compatible_def list_all2_conv_all_nth)
next
  case (2 x xs)
  then show ?case
    by (auto simp: compatible_def list_all2_conv_all_nth)
next
  case (3 x xs y ys)
  from "3.prems" obtain zs' where zs': "broadcast_dims xs ys = Some zs'"
    and zs: "zs = (if x = y \<or> y = 1 then x else y) # zs'"
    and ok: "x = y \<or> y = 1 \<or> x = 1"
    by (auto split: if_splits)
  have "compatible (xs @ replicate (length zs' - length xs) 1) zs' \<and>
        compatible (ys @ replicate (length zs' - length ys) 1) zs'"
  proof (cases "x = y \<or> y = 1")
    case True
    then show ?thesis using zs' by (intro "3.IH"(1))
  next
    case False
    then have "x = 1" using ok by simp
    with False show ?thesis using zs' by (intro "3.IH"(2)) simp_all
  qed
  then show ?case using zs ok by (auto simp: compatible_def)
qed

lemma compatible_rev: "compatible s t \<Longrightarrow> compatible (rev s) (rev t)"
  by (simp add: compatible_def)

lemma broadcast_shapes_compatible:
  assumes "broadcast_shapes s1 s2 = Some t"
  shows "compatible (replicate (length t - length s1) 1 @ s1) t"
    and "compatible (replicate (length t - length s2) 1 @ s2) t"
proof -
  from assms obtain zs where zs: "broadcast_dims (rev s1) (rev s2) = Some zs" and t: "t = rev zs"
    by (auto simp: broadcast_shapes_def)
  from broadcast_dims_compatible [OF zs]
  have a: "compatible (rev s1 @ replicate (length zs - length s1) 1) zs"
    and b: "compatible (rev s2 @ replicate (length zs - length s2) 1) zs"
    by simp_all
  show "compatible (replicate (length t - length s1) 1 @ s1) t"
    using compatible_rev [OF a] t by simp
  show "compatible (replicate (length t - length s2) 1 @ s2) t"
    using compatible_rev [OF b] t by simp
qed

lemma broadcast_to_elements:
  assumes "wf_ndarray a" and "compatible (replicate (length t - length (shape a)) 1 @ shape a) t"
  shows "broadcast_to a t = map (broadcast_element a t) (indices t)"
proof -
  have "length (data a) = prod_list (replicate (length t - length (shape a)) 1 @ shape a)"
    using assms(1) by (simp add: wf_ndarray_def)
  with assms(2) show ?thesis
    unfolding broadcast_to_def broadcast_element_def aligned_shape_def
    by (rule expand_elements)
qed

lemma broadcast_dims_same: "broadcast_dims xs xs = Some xs"
  by (induction xs) simp_all

lemma sum_list_squares_of_differences:
  fixes f g :: "'i \<Rightarrow> real"
  shows "sum_list (map (\<lambda>v. v * v) (map2 (-) (map f is) (map g is)))
           = (\<Sum>i\<leftarrow>is. (f i - g i)\<^sup>2)"
  by (induction "is") (simp_all add: power2_eq_square)

lemma loss_value_broadcast:
  assumes "wf_ndarray y" and "wf_ndarray goal" and "shape goal \<noteq> shape y"
    and "broadcast_shapes (shape y) (shape goal) = Some t"
  shows "loss_value y goal =
           Inr ((\<Sum>idx\<leftarrow>indices t. (broadcast_element y t idx - broadcast_element goal t idx)\<^sup>2)
                / real (length (data y)))"
proof -
  have ey: "broadcast_to y t = map (broadcast_element y t) (indices t)"
    using assms(1) broadcast_shapes_compatible(1) [OF assms(4)] by (rule broadcast_to_elements)
  have eg: "broadcast_to goal t = map (broadcast_element goal t) (indices t)"
    using assms(2) broadcast_shapes_compatible(2) [OF assms(4)] by (rule broadcast_to_elements)
  have "loss_value y goal =
          Inr (sum_list (map (\<lambda>v. v * v) (map2 (-) (broadcast_to y t) (broadcast_to goal t)))
               / scale_factor y)"
    using assms(3,4) by (simp add: loss_value_def elementwise_def K_sum_def K_square_def)
  also have "sum_list (map (\<lambda>v. v * v) (map2 (-) (broadcast_to y t) (broadcast_to goal t)))
               = (\<Sum>idx\<leftarrow>indices t. (broadcast_element y t idx - broadcast_element goal t idx)\<^sup>2)"
    unfolding ey eg by (rule sum_list_squares_of_differences)
  also have "scale_factor y = real (length (data y))"
    using assms(1) by (rule scale_factor_count)
  finally show ?thesis .
qed

lemma loss_value_incompatible:
  assumes "broadcast_shapes (shape y) (shape goal) = None"
  shows "loss_value y goal = Inl ValueError"
proof -
  have "shape y \<noteq> shape goal"
    using assms by (auto simp: broadcast_shapes_def broadcast_dims_same)
  then show ?thesis using assms by (simp add: loss_value_def elementwise_def)
qed

lemma map2_ones_left: "map2 (\<lambda>x y. if x = 1 then y else x) (replicate (length ys) (1::nat)) ys = ys"
  by (induction ys) simp_all

lemma map2_ones_right: "map2 (\<lambda>x y. if x = 1 then y else x) xs (replicate (length xs) (1::nat)) = xs"
  by (induction xs) simp_all

lemma list_all2_ones_left: "list_all2 (\<lambda>x y. x = y \<or> x = 1 \<or> y = 1) (replicate (length ys) (1::nat)) ys"
  by (induction ys) simp_all

lemma list_all2_ones_right: "list_all2 (\<lambda>x y. x = y \<or> x = 1 \<or> y = 1) xs (replicate (length xs) (1::nat))"
  by (induction xs) simp_all

lemma broadcast_dims_eq:
  "broadcast_dims xs ys =
     (let n = max (length xs) (length ys);
          a = xs @ replicate (n - length xs) 1; b = ys @ replicate (n - length ys) 1
      in if list_all2 (\<lambda>x y. x = y \<or> x = 1 \<or> y = 1) a b
         then Some (map2 (\<lambda>x y. if x = 1 then y else x) a b)
         else None)"
proof (induction xs ys rule: broadcast_dims.induct)
  case (1 ys)
  show ?case
    unfolding Let_def using map2_ones_left [of ys] list_all2_ones_left [of ys] by simp
next
  case (2 x xs)
  show ?case
    unfolding Let_def
    using map2_ones_right [of "x # xs"] list_all2_ones_right [of "x # xs"] by simp
next
  case (3 x xs y ys)
  show ?case
  proof (cases "x = y \<or> y = 1")
    case True
    then show ?thesis using "3.IH"(1) by (auto simp: Let_def)
  next
    case False
    show ?thesis
    proof (cases "x = 1")
      case True
      then show ?thesis using False "3.IH"(2) by (auto simp: Let_def)
    next
      case x: False
      then show ?thesis using False by (simp add: Let_def)
    qed
  qed
qed

lemma rev_left_pad: "rev (left_pad n s) = rev s @ replicate (n - length s) 1"
  by (simp add: left_pad_def)

lemma length_left_pad: "length s \<le> n \<Longrightarrow> length (left_pad n s) = n"
  by (simp add: left_pad_def)

lemma broadcast_shapes_eq_common_shape: "broadcast_shapes s1 s2 = common_shape s1 s2"
proof -
  let ?n = "max (length s1) (length s2)"
  let ?a = "left_pad ?n s1" and ?b = "left_pad ?n s2"
  have len: "length ?a = length ?b"
    by (simp add: length_left_pad)
  have all: "list_all2 (\<lambda>x y. x = y \<or> x = 1 \<or> y = 1) (rev ?a) (rev ?b)
               \<longleftrightarrow> list_all2 (\<lambda>x y. x = y \<or> x = 1 \<or> y = 1) ?a ?b"
    by (rule list_all2_rev)
  have m: "map2 (\<lambda>x y. if x = 1 then y else x) (rev ?a) (rev ?b)
             = rev (map2 (\<lambda>x y. if x = 1 then y else x) ?a ?b)"
    using len by (simp add: zip_rev rev_map)
  have "broadcast_dims (rev s1) (rev s2) =
          (if list_all2 (\<lambda>x y. x = y \<or> x = 1 \<or> y = 1) (rev ?a) (rev ?b)
           then Some (map2 (\<lambda>x y. if x = 1 then y else x) (rev ?a) (rev ?b))
           else None)"
    unfolding rev_left_pad by (simp add: broadcast_dims_eq Let_def)
  then show ?thesis
    unfolding all m by (simp add: broadcast_shapes_def common_shape_def Let_def)
qed

lemma expand_same: "length xs = prod_list s \<Longrightarrow> expand s s xs = xs"
proof (induction s arbitrary: xs)
  case Nil
  show ?case by simp
next
  case (Cons d ds)
  have "expand ds ds (block (prod_list ds) i xs) = block (prod_list ds) i xs" if "i < d" for i
  proof -
    have "Suc i * prod_list ds \<le> d * prod_list ds"
      using that by (intro mult_le_mono1) simp
    then have "length (block (prod_list ds) i xs) = prod_list ds"
      using Cons.prems by (intro length_block) simp
    then show ?thesis by (rule Cons.IH)
  qed
  then have "concat (map (\<lambda>i. expand ds ds (block (prod_list ds) i xs)) [0..<d])
               = concat (map (\<lambda>i. block (prod_list ds) i xs) [0..<d])"
    by (intro arg_cong [where f = concat] map_cong) simp_all
  then have "expand (d # ds) (d # ds) xs = concat (map (\<lambda>i. block (prod_list ds) i xs) [0..<d])"
    by simp
  also have "\<dots> = take (d * prod_list ds) xs"
    using Cons.prems by (intro concat_blocks_take) simp
  finally show ?case using Cons.prems by simp
qed

lemma compatible_refl: "compatible s s"
  by (simp add: compatible_def list_all2_refl)

lemma broadcast_elements_same:
  assumes "wf_ndarray a"
  shows "map (broadcast_element a (shape a)) (indices (shape a)) = data a"
proof -
  have len: "length (data a) = prod_list (shape a)"
    using assms by (simp add: wf_ndarray_def)
  have "map (broadcast_element a (shape a)) (indices (shape a)) = expand (shape a) (shape a) (data a)"
    using expand_elements [OF compatible_refl len]
    by (simp add: broadcast_element_def aligned_shape_def)
  also have "\<dots> = data a" using len by (rule expand_same)
  finally show ?thesis .
qed

lemma common_shape_same: "common_shape s s = Some s"
  using broadcast_dims_same [of "rev s"]
  by (simp add: broadcast_shapes_eq_common_shape [symmetric] broadcast_shapes_def)

lemma loss_value_common_shape:
  assumes "wf_ndarray y" and "wf_ndarray goal"
    and "common_shape (shape y) (shape goal) = Some t"
  shows "loss_value y goal =
           Inr ((\<Sum>idx\<leftarrow>indices t. (broadcast_element y t idx - broadcast_element goal t idx)\<^sup>2)
                / real (length (data y)))"
proof (cases "shape goal = shape y")
  case False
  then show ?thesis
    using assms by (intro loss_value_broadcast) (simp_all add: broadcast_shapes_eq_common_shape)
next
  case True
  then have t: "t = shape y" "t = shape goal"
    using assms(3) by (simp_all add: common_shape_same)
  have "loss_value y goal =
          Inr (sum_list (map (\<lambda>v. v * v) (map2 (-) (data y) (data goal))) / scale_factor y)"
    using True by (simp add: loss_value_def elementwise_def K_sum_def K_square_def)
  also have "data y = map (broadcast_element y t) (indices t)"
    unfolding t(1) using assms(1) by (rule broadcast_elements_same [symmetric])
  also have "data goal = map (broadcast_element goal t) (indices t)"
    unfolding t(2) using assms(2) by (rule broadcast_elements_same [symmetric])
  also have "sum_list (map (\<lambda>v. v * v)
                 (map2 (-) (map (broadcast_element y t) (indices t))
                           (map (broadcast_element goal t) (indices t))))
               = (\<Sum>idx\<leftarrow>indices t. (broadcast_element y t idx - broadcast_element goal t idx)\<^sup>2)"
    by (rule sum_list_squares_of_differences)
  also have "scale_factor y = real (length (data y))"
    using assms(1) by (rule scale_factor_count)
  finally show ?thesis .
qed

lemma loss_value_no_common_shape:
  "common_shape (shape y) (shape goal) = None \<Longrightarrow> loss_value y goal = Inl ValueError"
  by (rule loss_value_incompatible) (simp add: broadcast_shapes_eq_common_shape)

text \<open>
  Claim C2. Where the final layer evaluates to an array \<open>y\<close>, the loss that
  \<open>generate_adversarial_example\<close> builds is the sum, over all indices of the common
  shape of \<open>y\<close> and the target, of the squared difference between the element of \<open>y\<close>
  and the element of the target at that index, divided by the number of elements of
  \<open>y\<close> (not of the target, and not of the common shape). Where the target has the
  shape of \<open>y\<close> this is the sum over the elements of \<open>y\<close> of the squared differences,
  divided by their number. Where the two shapes have no common shape, no loss is
  built: the subtraction raises.
\<close>

theorem loss_is_mean_squared_difference:
  assumes "final_layer_output x = Inr y" and "wf_ndarray y" and "wf_ndarray goal_output"
  shows "(\<forall>t. common_shape (shape y) (shape goal_output) = Some t \<longrightarrow>
            loss_tensor final_layer_output goal_output x =
              Inr ((\<Sum>idx\<leftarrow>indices t.
                      (broadcast_element y t idx - broadcast_element goal_output t idx)\<^sup>2)
                   / real (length (data y)))) \<and>
         (common_shape (shape y) (shape goal_output) = None \<longrightarrow>
            loss_tensor final_layer_output goal_output x = Inl ValueError) \<and>
         (shape goal_output = shape y \<longrightarrow>
            loss_tensor final_layer_output goal_output x =
              Inr ((\<Sum>i<length (data y). (data y ! i - data goal_output ! i)\<^sup>2)
                   / real (length (data y))))"
proof (intro conjI allI impI)
  fix t
  assume "common_shape (shape y) (shape goal_output) = Some t"
  with assms(2,3) have "loss_value y goal_output =
      Inr ((\<Sum>idx\<leftarrow>indices t.
              (broadcast_element y t idx - broadcast_element goal_output t idx)\<^sup>2)
           / real (length (data y)))"
    by (rule loss_value_common_shape)
  then show "loss_tensor final_layer_output goal_output x =
      Inr ((\<Sum>idx\<leftarrow>indices t.
              (broadcast_element y t idx - broadcast_element goal_output t idx)\<^sup>2)
           / real (length (data y)))"
    using assms(1) by (simp add: loss_tensor_def)
next
  assume "common_shape (shape y) (shape goal_output) = None"
  then have "loss_value y goal_output = Inl ValueError"
    by (rule loss_value_no_common_shape)
  then show "loss_tensor final_layer_output goal_output x = Inl ValueError"
    using assms(1) by (simp add: loss_tensor_def)
next
  assume "shape goal_output = shape y"
  then show "loss_tensor final_layer_output goal_output x =
      Inr ((\<Sum>i<length (data y). (data y ! i - data goal_output ! i)\<^sup>2)
           / real (length (data y)))"
    using assms by (simp add: loss_tensor_def loss_value_same_shape)
qed

theorem loss_is_mean_squared_difference_witness:
  "(\<lambda>x. Inr x) \<lparr>shape = [2], data = [3, 5 :: real]\<rparr>
     = (Inr \<lparr>shape = [2], data = [3, 5]\<rparr> :: error + real ndarray) \<and>
   wf_ndarray \<lparr>shape = [2], data = [3, 5 :: real]\<rparr> \<and>
   wf_ndarray \<lparr>shape = [2], data = [1, 1 :: real]\<rparr> \<and>
   common_shape [2] [2] = Some [2] \<and>
   loss_tensor (\<lambda>x. Inr x) \<lparr>shape = [2], data = [1, 1]\<rparr> \<lparr>shape = [2], data = [3, 5]\<rparr> = Inr 10 \<and>
   (\<lambda>x. Inr x) \<lparr>shape = [1, 1, 1, 1], data = [3 :: real]\<rparr>
     = (Inr \<lparr>shape = [1, 1, 1, 1], data = [3]\<rparr> :: error + real ndarray) \<and>
   wf_ndarray \<lparr>shape = [1, 1, 1, 1], data = [3 :: real]\<rparr> \<and>
   wf_ndarray \<lparr>shape = [1, 2, 2, 1], data = [1, 1, 1, 1 :: real]\<rparr> \<and>
   common_shape [1, 1, 1, 1] [1, 2, 2, 1] = Some [1, 2, 2, 1] \<and>
   loss_tensor (\<lambda>x. Inr x) \<lparr>shape = [1, 2, 2, 1], data = [1, 1, 1, 1]\<rparr>
     \<lparr>shape = [1, 1, 1, 1], data = [3]\<rparr> = Inr 16 \<and>
   wf_ndarray \<lparr>shape = [2, 1], data = [1, 3 :: real]\<rparr> \<and>
   wf_ndarray \<lparr>shape = [3], data = [1, 1, 3 :: real]\<rparr> \<and>
   common_shape [2, 1] [3] = Some [2, 3] \<and>
   loss_tensor (\<lambda>x. Inr x) \<lparr>shape = [3], data = [1, 1, 3]\<rparr>
     \<lparr>shape = [2, 1], data = [1, 3]\<rparr> = Inr 6 \<and>
   wf_ndarray \<lparr>shape = [3], data = [1, 1, 1 :: real]\<rparr> \<and>
   common_shape [2] [3] = None \<and>
   loss_tensor (\<lambda>x. Inr x) \<lparr>shape = [3], data = [1, 1, 1]\<rparr> \<lparr>shape = [2], data = [3, 5]\<rparr>
     = Inl ValueError"
proof -
  have w: "wf_ndarray \<lparr>shape = [2], data = [3, 5 :: real]\<rparr>"
    "wf_ndarray \<lparr>shape = [2], data = [1, 1 :: real]\<rparr>"
    "wf_ndarray \<lparr>shape = [1, 1, 1, 1], data = [3 :: real]\<rparr>"
    "wf_ndarray \<lparr>shape = [1, 2, 2, 1], data = [1, 1, 1, 1 :: real]\<rparr>"
    "wf_ndarray \<lparr>shape = [2, 1], data = [1, 3 :: real]\<rparr>"
    "wf_ndarray \<lparr>shape = [3], data = [1, 1, 3 :: real]\<rparr>"
    "wf_ndarray \<lparr>shape = [3], data = [1, 1, 1 :: real]\<rparr>"
    by (simp_all add: wf_ndarray_def)
  have c: "common_shape [2] [2] = Some [2]"
    "common_shape [1, 1, 1, 1] [1, 2, 2, 1] = Some [1, 2, 2, 1]"
    "common_shape [2, 1] [3] = Some [2, 3]"
    "common_shape [2] [3] = None"
    by (simp_all add: common_shape_def left_pad_def Let_def)
  have same: "loss_tensor (\<lambda>x. Inr x) \<lparr>shape = [2], data = [1, 1]\<rparr> \<lparr>shape = [2], data = [3, 5]\<rparr>
                = Inr 10"
    using loss_is_mean_squared_difference
            [of "\<lambda>x. Inr x" "\<lparr>shape = [2], data = [3, 5]\<rparr>" "\<lparr>shape = [2], data = [3, 5]\<rparr>"
                "\<lparr>shape = [2], data = [1, 1]\<rparr>"] w
    by (simp add: lessThan_Suc numeral_2_eq_2)
  have "loss_tensor (\<lambda>x. Inr x) \<lparr>shape = [1, 2, 2, 1], data = [1, 1, 1, 1]\<rparr>
          \<lparr>shape = [1, 1, 1, 1], data = [3]\<rparr>
        = Inr ((\<Sum>idx\<leftarrow>indices [1, 2, 2, 1].
                  (broadcast_element \<lparr>shape = [1, 1, 1, 1], data = [3]\<rparr> [1, 2, 2, 1] idx
                   - broadcast_element \<lparr>shape = [1, 2, 2, 1], data = [1, 1, 1, 1]\<rparr> [1, 2, 2, 1] idx)\<^sup>2)
               / real (length (data \<lparr>shape = [1, 1, 1, 1], data = [3 :: real]\<rparr>)))"
    using loss_is_mean_squared_difference
            [of "\<lambda>x. Inr x" "\<lparr>shape = [1, 1, 1, 1], data = [3]\<rparr>"
                "\<lparr>shape = [1, 1, 1, 1], data = [3]\<rparr>"
                "\<lparr>shape = [1, 2, 2, 1], data = [1, 1, 1, 1]\<rparr>"] w c(2)
    by simp
  also have "\<dots> = Inr 16"
    by (simp add: broadcast_element_def aligned_shape_def source_index_def upt_conv_Cons
        numeral_2_eq_2)
  finally have diff: "loss_tensor (\<lambda>x. Inr x) \<lparr>shape = [1, 2, 2, 1], data = [1, 1, 1, 1]\<rparr>
     \<lparr>shape = [1, 1, 1, 1], data = [3]\<rparr> = Inr 16" .
  have "loss_tensor (\<lambda>x. Inr x) \<lparr>shape = [3], data = [1, 1, 3]\<rparr>
          \<lparr>shape = [2, 1], data = [1, 3]\<rparr>
        = Inr ((\<Sum>idx\<leftarrow>indices [2, 3].
                  (broadcast_element \<lparr>shape = [2, 1], data = [1, 3]\<rparr> [2, 3] idx
                   - broadcast_element \<lparr>shape = [3], data = [1, 1, 3]\<rparr> [2, 3] idx)\<^sup>2)
               / real (length (data \<lparr>shape = [2, 1], data = [1, 3 :: real]\<rparr>)))"
    using loss_is_mean_squared_difference
            [of "\<lambda>x. Inr x" "\<lparr>shape = [2, 1], data = [1, 3]\<rparr>"
                "\<lparr>shape = [2, 1], data = [1, 3]\<rparr>"
                "\<lparr>shape = [3], data = [1, 1, 3]\<rparr>"] w c(3)
    by simp
  also have "\<dots> = Inr 6"
    by (simp add: broadcast_element_def aligned_shape_def source_index_def upt_conv_Cons
        numeral_2_eq_2 numeral_3_eq_3)
  finally have both: "loss_tensor (\<lambda>x. Inr x) \<lparr>shape = [3], data = [1, 1, 3]\<rparr>
     \<lparr>shape = [2, 1], data = [1, 3]\<rparr> = Inr 6" .
  have none: "loss_tensor (\<lambda>x. Inr x) \<lparr>shape = [3], data = [1, 1, 1]\<rparr> \<lparr>shape = [2], data = [3, 5]\<rparr>
     = Inl ValueError"
    using loss_is_mean_squared_difference
            [of "\<lambda>x. Inr x" "\<lparr>shape = [2], data = [3, 5]\<rparr>" "\<lparr>shape = [2], data = [3, 5]\<rparr>"
                "\<lparr>shape = [3], data = [1, 1, 1]\<rparr>"] w c(4)
    by simp
  show ?thesis
    by (intro conjI refl w c same diff both none)
qed

lemma K_mean_abs:
  "K_mean (K_abs g) = (\<Sum>i<length (data g). \<bar>data g ! i\<bar>) / real (length (data g))"
proof -
  have "sum_list (map abs (data g)) = (\<Sum>i = 0..<length (data g). \<bar>data g ! i\<bar>)"
    by (simp add: sum_list_sum_nth)
  then show ?thesis by (simp add: K_mean_def K_abs_def atLeast0LessThan)
qed

text \<open>
  Claim C3. The divisor of the normalisation is the maximum of the mean absolute value
  of the gradient and the floor \<open>eps\<close>: it is the mean where the mean is at least the
  floor and the floor otherwise, it is never below the floor, and for a positive floor
  it is not zero. The normalised gradient is the gradient divided by it.
\<close>

theorem divisor_never_below_floor:
  "divisor eps g = max ((\<Sum>i<length (data g). \<bar>data g ! i\<bar>) / real (length (data g))) eps \<and>
   (eps \<le> K_mean (K_abs g) \<longrightarrow> divisor eps g = K_mean (K_abs g)) \<and>
   (K_mean (K_abs g) < eps \<longrightarrow> divisor eps g = eps) \<and>
   eps \<le> divisor eps g \<and>
   (0 < eps \<longrightarrow> divisor eps g \<noteq> 0) \<and>
   data (normalize eps g) = map (\<lambda>v. v / divisor eps g) (data g)"
proof -
  have d: "divisor eps g = max (K_mean (K_abs g)) eps"
    by (simp add: divisor_def K_maximum_def)
  show ?thesis
    unfolding d by (auto simp: K_mean_abs normalize_def d)
qed

theorem divisor_never_below_floor_witness:
  "(1 / 10000000 \<le> K_mean (K_abs \<lparr>shape = [2], data = [3, - 5]\<rparr>)) \<and>
   divisor (1 / 10000000) \<lparr>shape = [2], data = [3, - 5]\<rparr> = 4 \<and>
   K_mean (K_abs \<lparr>shape = [2], data = [0, 0]\<rparr>) < 1 / 10000000 \<and>
   divisor (1 / 10000000) \<lparr>shape = [2], data = [0, 0]\<rparr> = 1 / 10000000 \<and>
   (0::real) < 1 / 10000000 \<and>
   divisor (1 / 10000000) \<lparr>shape = [2], data = [0, 0]\<rparr> \<noteq> 0"
  using divisor_never_below_floor [of "1 / 10000000" "\<lparr>shape = [2], data = [3, - 5]\<rparr>"]
        divisor_never_below_floor [of "1 / 10000000" "\<lparr>shape = [2], data = [0, 0]\<rparr>"]
  by (simp add: K_mean_def K_abs_def)

section \<open>What is displayed\<close>

lemma image_paths_differ: "SINK_IMAGE \<noteq> BATHTUB_IMAGE"
  by (simp add: SINK_IMAGE_def BATHTUB_IMAGE_def)

lemma display_image_input_three:
  assumes "getitem0 img = Inr img0" and "shape img0 = h # w # 3 # rest"
  shows "display_image img True \<sigma> = (Inr (), \<sigma>\<lparr>trace := trace \<sigma> @ [Figure, Imshow img0, Show]\<rparr>)"
  using assms by (simp add: display_image_eq shown_def to_multichannel_three)

lemma display_image_input_one:
  assumes "getitem0 img = Inr img0" and "shape img0 = h # w # 1 # rest" and "wf_ndarray img0"
  shows "\<exists>x. display_image img True \<sigma> = (Inr (), \<sigma>\<lparr>trace := trace \<sigma> @ [Figure, Imshow x, Show]\<rparr>)
           \<and> shape x = h # w # 3 # rest \<and> (\<forall>k<3. getitem_axis2 x k = getitem_axis2 img0 0)"
proof -
  from to_multichannel_broadcast [OF assms(2,3)] obtain ch0 out
    where "getitem_axis2 img0 0 = Inr ch0" "to_multichannel img0 = Inr out"
      "shape out = h # w # 3 # rest" "\<forall>k<3. getitem_axis2 out k = Inr ch0"
    by auto
  then show ?thesis using assms(1)
    by (intro exI [of _ out]) (simp add: display_image_eq shown_def)
qed

lemma display_image_output:
  assumes "getitem0 img = Inr img0" and "shape img0 = h # w # c # rest" and "wf_ndarray img0"
    and "0 < c"
  shows "\<exists>ch0. getitem_axis2 img0 0 = Inr ch0 \<and> shape ch0 = h # w # rest \<and>
           display_image img False \<sigma> = (Inr (), \<sigma>\<lparr>trace := trace \<sigma> @ [Figure, Imshow ch0, Show]\<rparr>)"
proof -
  from getitem_axis2_wf [OF assms(2,3,4)] obtain ch0
    where "getitem_axis2 img0 0 = Inr ch0" "shape ch0 = h # w # rest" by blast
  then show ?thesis using assms(1) by (simp add: display_image_eq shown_def)
qed

text \<open>
  Claim C6, amended. \<open>display\<close> renders the two input images with \<open>is_input\<close> set
  and the two predicted depth outputs without it. An input image with 3 channels is
  shown as it is, and the single channel of an input image with 1 channel is broadcast
  to 3 identical channels. A predicted depth output is not broadcast: what is shown is
  the two-dimensional array of its channel 0, whatever its number of channels.
\<close>

theorem display_image_by_kind:
  assumes "getitem0 img = Inr img0"
  shows "(shape img0 = h # w # 3 # rest \<longrightarrow>
            display_image img True \<sigma> =
              (Inr (), \<sigma>\<lparr>trace := trace \<sigma> @ [Figure, Imshow img0, Show]\<rparr>)) \<and>
         (shape img0 = h # w # 1 # rest \<and> wf_ndarray img0 \<longrightarrow>
            (\<exists>x. display_image img True \<sigma> =
                    (Inr (), \<sigma>\<lparr>trace := trace \<sigma> @ [Figure, Imshow x, Show]\<rparr>) \<and>
                 shape x = h # w # 3 # rest \<and>
                 (\<forall>k<3. getitem_axis2 x k = getitem_axis2 img0 0))) \<and>
         (shape img0 = h # w # c # rest \<and> wf_ndarray img0 \<and> 0 < c \<longrightarrow>
            (\<exists>ch0. getitem_axis2 img0 0 = Inr ch0 \<and> shape ch0 = h # w # rest \<and>
                   display_image img False \<sigma> =
                     (Inr (), \<sigma>\<lparr>trace := trace \<sigma> @ [Figure, Imshow ch0, Show]\<rparr>)))"
  using display_image_input_three [OF assms] display_image_input_one [OF assms]
    display_image_output [OF assms]
  by blast

theorem display_image_by_kind_witness:
  "getitem0 \<lparr>shape = [1, 1, 1, 3], data = [4, 2, 1 :: real]\<rparr>
     = Inr \<lparr>shape = [1, 1, 3], data = [4, 2, 1]\<rparr> \<and>
   display_image \<lparr>shape = [1, 1, 1, 3], data = [4, 2, 1]\<rparr> True init_state =
     (Inr (), init_state\<lparr>trace := trace init_state @
                [Figure, Imshow \<lparr>shape = [1, 1, 3], data = [4, 2, 1]\<rparr>, Show]\<rparr>) \<and>
   getitem0 \<lparr>shape = [1, 1, 1, 1], data = [7 :: real]\<rparr> = Inr \<lparr>shape = [1, 1, 1], data = [7]\<rparr> \<and>
   wf_ndarray \<lparr>shape = [1, 1, 1], data = [7 :: real]\<rparr> \<and>
   (\<exists>x. display_image \<lparr>shape = [1, 1, 1, 1], data = [7]\<rparr> True init_state =
           (Inr (), init_state\<lparr>trace := trace init_state @ [Figure, Imshow x, Show]\<rparr>) \<and>
        shape x = [1, 1, 3] \<and>
        (\<forall>k<3. getitem_axis2 x k = getitem_axis2 \<lparr>shape = [1, 1, 1], data = [7]\<rparr> 0)) \<and>
   (\<exists>ch0. getitem_axis2 \<lparr>shape = [1, 1, 1], data = [7]\<rparr> 0 = Inr ch0 \<and> shape ch0 = [1, 1] \<and>
        display_image \<lparr>shape = [1, 1, 1, 1], data = [7]\<rparr> False init_state =
          (Inr (), init_state\<lparr>trace := trace init_state @ [Figure, Imshow ch0, Show]\<rparr>))"
proof -
  have g3: "getitem0 \<lparr>shape = [1, 1, 1, 3], data = [4, 2, 1 :: real]\<rparr>
              = Inr \<lparr>shape = [1, 1, 3], data = [4, 2, 1]\<rparr>"
    by (simp add: getitem0_def block_def)
  have g1: "getitem0 \<lparr>shape = [1, 1, 1, 1], data = [7 :: real]\<rparr> = Inr \<lparr>shape = [1, 1, 1], data = [7]\<rparr>"
    by (simp add: getitem0_def block_def)
  have wf: "wf_ndarray \<lparr>shape = [1, 1, 1], data = [7 :: real]\<rparr>"
    by (simp add: wf_ndarray_def)
  have a: "display_image \<lparr>shape = [1, 1, 1, 3], data = [4, 2, 1]\<rparr> True init_state =
     (Inr (), init_state\<lparr>trace := trace init_state @
                [Figure, Imshow \<lparr>shape = [1, 1, 3], data = [4, 2, 1]\<rparr>, Show]\<rparr>)"
    using display_image_by_kind [OF g3, of 1 1 "[]" init_state] by simp
  have b: "\<exists>x. display_image \<lparr>shape = [1, 1, 1, 1], data = [7]\<rparr> True init_state =
           (Inr (), init_state\<lparr>trace := trace init_state @ [Figure, Imshow x, Show]\<rparr>) \<and>
        shape x = [1, 1, 3] \<and>
        (\<forall>k<3. getitem_axis2 x k = getitem_axis2 \<lparr>shape = [1, 1, 1], data = [7]\<rparr> 0)"
    using display_image_by_kind [OF g1, of 1 1 "[]" init_state] wf by simp
  have c: "\<exists>ch0. getitem_axis2 \<lparr>shape = [1, 1, 1], data = [7]\<rparr> 0 = Inr ch0 \<and> shape ch0 = [1, 1] \<and>
        display_image \<lparr>shape = [1, 1, 1, 1], data = [7]\<rparr> False init_state =
          (Inr (), init_state\<lparr>trace := trace init_state @ [Figure, Imshow ch0, Show]\<rparr>)"
    using display_image_by_kind [OF g1, of 1 1 "[]" init_state 1] wf by simp
  show ?thesis
    by (intro conjI) (rule g3 a g1 wf b c)+
qed

text \<open>
  Claim C6, as stated, fails on the predicted depth outputs. In this run of \<open>display\<close>
  the depth predicted for the original image has one channel, of value 7; what is shown
  is the array of shape \<open>[1, 1]\<close>, not the broadcast array of shape \<open>[1, 1, 3]\<close>.
\<close>

theorem display_depth_output_counterexample:
  "trace (snd (display toy_wrapper () 1 0 toy_display_state)) =
     [Predict \<lparr>shape = [1, 1, 1, 3], data = [4, 2, 1]\<rparr>,
      Predict \<lparr>shape = [1, 1, 1, 3], data = [3, 1, 0]\<rparr>,
      Figure, Imshow \<lparr>shape = [1, 1, 3], data = [4, 2, 1]\<rparr>, Show,
      Figure, Imshow \<lparr>shape = [1, 1], data = [7]\<rparr>, Show,
      Figure, Imshow \<lparr>shape = [1, 1, 3], data = [3, 1, 0]\<rparr>, Show,
      Figure, Imshow \<lparr>shape = [1, 1], data = [4]\<rparr>, Show] \<and>
   predict toy_wrapper () \<lparr>shape = [1, 1, 1, 3], data = [4, 2, 1]\<rparr>
     = Inr \<lparr>shape = [1, 1, 1, 1], data = [7]\<rparr> \<and>
   getitem0 \<lparr>shape = [1, 1, 1, 1], data = [7 :: real]\<rparr> = Inr \<lparr>shape = [1, 1, 1], data = [7]\<rparr> \<and>
   to_multichannel \<lparr>shape = [1, 1, 1], data = [7 :: real]\<rparr>
     = Inr \<lparr>shape = [1, 1, 3], data = [7, 7, 7]\<rparr> \<and>
   Imshow \<lparr>shape = [1, 1, 3], data = [7, 7, 7]\<rparr>
     \<notin> set (trace (snd (display toy_wrapper () 1 0 toy_display_state)))"
proof -
  have "display toy_wrapper () 1 0 toy_display_state =
     (Inr (), toy_display_state\<lparr>trace := trace toy_display_state @
     [Predict (heap toy_display_state 1), Predict (heap toy_display_state 0),
      Figure, Imshow \<lparr>shape = [1, 1, 3], data = [4, 2, 1]\<rparr>, Show,
      Figure, Imshow \<lparr>shape = [1, 1], data = [7]\<rparr>, Show,
      Figure, Imshow \<lparr>shape = [1, 1, 3], data = [3, 1, 0]\<rparr>, Show,
      Figure, Imshow \<lparr>shape = [1, 1], data = [4]\<rparr>, Show]\<rparr>)"
    by (rule display_ok [where oo = "\<lparr>shape = [1, 1, 1, 1], data = [7]\<rparr>"
                           and ao = "\<lparr>shape = [1, 1, 1, 1], data = [4]\<rparr>"])
       (simp_all add: toy_wrapper_def toy_display_state_def shown_def getitem0_def
          getitem_axis2_def to_multichannel_def block_def)
  then show ?thesis
    by (simp add: toy_display_state_def toy_wrapper_def getitem0_def to_multichannel_def
        getitem_axis2_def stack3_axis2_def block_def)
qed

section \<open>Failures of the wrapper\<close>

text \<open>
  Claim C8. If loading the first image file fails, \<open>get_sink_to_bathtub_inputs\<close> ends
  with that error right after the call; likewise if loading the second file fails, and
  if \<open>predict\<close> fails: the error is returned as it is and the trace ends with the call
  that failed, made once. In \<open>generate_adversarial_example\<close> a failure of
  \<open>get_sink_to_bathtub_inputs\<close> is the outcome of the whole run, error and state alike:
  no later step runs.
\<close>

theorem get_sink_to_bathtub_inputs_propagates_errors:
  "(load_image w SINK_IMAGE = Inl e \<longrightarrow>
      get_sink_to_bathtub_inputs w m \<sigma> =
        (Inl e, \<sigma>\<lparr>trace := trace \<sigma> @ [LoadImage SINK_IMAGE]\<rparr>)) \<and>
   (load_image w SINK_IMAGE = Inr a \<and> load_image w BATHTUB_IMAGE = Inl e \<longrightarrow>
      fst (get_sink_to_bathtub_inputs w m \<sigma>) = Inl e \<and>
      trace (snd (get_sink_to_bathtub_inputs w m \<sigma>)) =
        trace \<sigma> @ [LoadImage SINK_IMAGE, LoadImage BATHTUB_IMAGE]) \<and>
   (load_image w SINK_IMAGE = Inr a \<and> load_image w BATHTUB_IMAGE = Inr b \<and>
    predict w m b = Inl e \<longrightarrow>
      fst (get_sink_to_bathtub_inputs w m \<sigma>) = Inl e \<and>
      trace (snd (get_sink_to_bathtub_inputs w m \<sigma>)) =
        trace \<sigma> @ [LoadImage SINK_IMAGE, LoadImage BATHTUB_IMAGE, Predict b]) \<and>
   (initialize_model w = Inr m \<and>
    get_sink_to_bathtub_inputs w m
      (\<sigma>\<lparr>trace := trace \<sigma> @ [SetLearningPhase 0, InitializeModel]\<rparr>) = (Inl e, \<sigma>') \<longrightarrow>
      generate_adversarial_example w K iterations step_size \<sigma> = (Inl e, \<sigma>'))"
  by (simp add: get_sink_to_bathtub_inputs_eq generate_aborts_with_inputs)

lemma broken_wrapper_loads:
  "load_image (broken_wrapper 0) SINK_IMAGE = Inl (ExternalError ''file not found'')"
  "load_image (broken_wrapper 1) SINK_IMAGE = Inr \<lparr>shape = [1, 1, 1, 3], data = [4, 2, 1]\<rparr>"
  "load_image (broken_wrapper 1) BATHTUB_IMAGE = Inl (ExternalError ''file not found'')"
  "load_image (broken_wrapper 2) SINK_IMAGE = Inr \<lparr>shape = [1, 1, 1, 3], data = [4, 2, 1]\<rparr>"
  "load_image (broken_wrapper 2) BATHTUB_IMAGE = Inr \<lparr>shape = [1, 1, 1, 3], data = [0, 0, 0]\<rparr>"
  "predict (broken_wrapper 2) () \<lparr>shape = [1, 1, 1, 3], data = [0, 0, 0]\<rparr>
     = Inl (ExternalError ''predict failed'')"
  "initialize_model (broken_wrapper 0) = Inr ()"
  using image_paths_differ
  by (auto simp add: broken_wrapper_def toy_wrapper_def)

theorem get_sink_to_bathtub_inputs_propagates_errors_witness:
  "load_image (broken_wrapper 0) SINK_IMAGE = Inl (ExternalError ''file not found'') \<and>
   get_sink_to_bathtub_inputs (broken_wrapper 0) () init_state =
     (Inl (ExternalError ''file not found''),
      init_state\<lparr>trace := trace init_state @ [LoadImage SINK_IMAGE]\<rparr>) \<and>
   load_image (broken_wrapper 1) SINK_IMAGE = Inr \<lparr>shape = [1, 1, 1, 3], data = [4, 2, 1]\<rparr> \<and>
   load_image (broken_wrapper 1) BATHTUB_IMAGE = Inl (ExternalError ''file not found'') \<and>
   fst (get_sink_to_bathtub_inputs (broken_wrapper 1) () init_state)
     = Inl (ExternalError ''file not found'') \<and>
   trace (snd (get_sink_to_bathtub_inputs (broken_wrapper 1) () init_state))
     = trace init_state @ [LoadImage SINK_IMAGE, LoadImage BATHTUB_IMAGE] \<and>
   load_image (broken_wrapper 2) SINK_IMAGE = Inr \<lparr>shape = [1, 1, 1, 3], data = [4, 2, 1]\<rparr> \<and>
   load_image (broken_wrapper 2) BATHTUB_IMAGE = Inr \<lparr>shape = [1, 1, 1, 3], data = [0, 0, 0]\<rparr> \<and>
   predict (broken_wrapper 2) () \<lparr>shape = [1, 1, 1, 3], data = [0, 0, 0]\<rparr>
     = Inl (ExternalError ''predict failed'') \<and>
   fst (get_sink_to_bathtub_inputs (broken_wrapper 2) () init_state)
     = Inl (ExternalError ''predict failed'') \<and>
   trace (snd (get_sink_to_bathtub_inputs (broken_wrapper 2) () init_state))
     = trace init_state @ [LoadImage SINK_IMAGE, LoadImage BATHTUB_IMAGE,
                           Predict \<lparr>shape = [1, 1, 1, 3], data = [0, 0, 0]\<rparr>] \<and>
   initialize_model (broken_wrapper 0) = Inr () \<and>
   generate_adversarial_example (broken_wrapper 0) toy_backend 100 (1 / 1000) init_state =
     (Inl (ExternalError ''file not found''),
      init_state\<lparr>trace := trace init_state @
        [SetLearningPhase 0, InitializeModel, LoadImage SINK_IMAGE]\<rparr>)"
proof -
  note b = broken_wrapper_loads
  have s0: "get_sink_to_bathtub_inputs (broken_wrapper 0) () init_state =
     (Inl (ExternalError ''file not found''),
      init_state\<lparr>trace := trace init_state @ [LoadImage SINK_IMAGE]\<rparr>)"
    using get_sink_to_bathtub_inputs_propagates_errors
            [of "broken_wrapper 0" "ExternalError ''file not found''" "()" init_state]
          b(1)
    by simp
  have s1: "fst (get_sink_to_bathtub_inputs (broken_wrapper 1) () init_state)
     = Inl (ExternalError ''file not found'') \<and>
   trace (snd (get_sink_to_bathtub_inputs (broken_wrapper 1) () init_state))
     = trace init_state @ [LoadImage SINK_IMAGE, LoadImage BATHTUB_IMAGE]"
    using get_sink_to_bathtub_inputs_propagates_errors
            [of "broken_wrapper 1" "ExternalError ''file not found''" "()" init_state
                "\<lparr>shape = [1, 1, 1, 3], data = [4, 2, 1]\<rparr>"]
          b(2,3)
    by simp
  have s2: "fst (get_sink_to_bathtub_inputs (broken_wrapper 2) () init_state)
     = Inl (ExternalError ''predict failed'') \<and>
   trace (snd (get_sink_to_bathtub_inputs (broken_wrapper 2) () init_state))
     = trace init_state @ [LoadImage SINK_IMAGE, LoadImage BATHTUB_IMAGE,
                           Predict \<lparr>shape = [1, 1, 1, 3], data = [0, 0, 0]\<rparr>]"
    using get_sink_to_bathtub_inputs_propagates_errors
            [of "broken_wrapper 2" "ExternalError ''predict failed''" "()" init_state
                "\<lparr>shape = [1, 1, 1, 3], data = [4, 2, 1]\<rparr>"
                "\<lparr>shape = [1, 1, 1, 3], data = [0, 0, 0]\<rparr>"]
          b(4,5,6)
    by simp
  let ?\<sigma>0 = "init_state\<lparr>trace := trace init_state @ [SetLearningPhase 0, InitializeModel]\<rparr>"
  have "get_sink_to_bathtub_inputs (broken_wrapper 0) () ?\<sigma>0 =
     (Inl (ExternalError ''file not found''), ?\<sigma>0\<lparr>trace := trace ?\<sigma>0 @ [LoadImage SINK_IMAGE]\<rparr>)"
    using get_sink_to_bathtub_inputs_propagates_errors
            [of "broken_wrapper 0" "ExternalError ''file not found''" "()" ?\<sigma>0]
          b(1)
    by simp
  then have "generate_adversarial_example (broken_wrapper 0) toy_backend 100 (1 / 1000) init_state =
     (Inl (ExternalError ''file not found''), ?\<sigma>0\<lparr>trace := trace ?\<sigma>0 @ [LoadImage SINK_IMAGE]\<rparr>)"
    using get_sink_to_bathtub_inputs_propagates_errors
            [of "broken_wrapper 0" "ExternalError ''file not found''" "()" init_state _ _
                "?\<sigma>0\<lparr>trace := trace ?\<sigma>0 @ [LoadImage SINK_IMAGE]\<rparr>" toy_backend 100 "1 / 1000"]
          b(7)
    by simp
  then have g: "generate_adversarial_example (broken_wrapper 0) toy_backend 100 (1 / 1000) init_state =
     (Inl (ExternalError ''file not found''),
      init_state\<lparr>trace := trace init_state @
        [SetLearningPhase 0, InitializeModel, LoadImage SINK_IMAGE]\<rparr>)"
    by simp
  show ?thesis
    using b s0 s1 s2 g by simp
qed

section \<open>The whole run\<close>

lemma call_get_final_layer_apply:
  "bind (call_get_final_layer w m) k \<sigma> =
     (case get_final_layer w m of
        Inl e \<Rightarrow> (Inl e, \<sigma>\<lparr>trace := trace \<sigma> @ [GetFinalLayer]\<rparr>)
      | Inr fl \<Rightarrow> k fl (\<sigma>\<lparr>trace := trace \<sigma> @ [GetFinalLayer]\<rparr>))"
  by (simp add: call_get_final_layer_def bind_assoc bind_lift)

text \<open>A run whose set-up fails ends with an error before the global is touched.\<close>

lemma generate_setup_fails:
  assumes "\<not> (\<exists>m a b goal fl gr.
      initialize_model w = Inr m \<and> load_image w SINK_IMAGE = Inr a \<and>
      load_image w BATHTUB_IMAGE = Inr b \<and> predict w m b = Inr goal \<and>
      get_final_layer w m = Inr fl \<and> K_gradients K (loss_tensor fl goal) = Inr gr)"
  shows "(\<exists>e. fst (generate_adversarial_example w K iterations s \<sigma>) = Inl e) \<and>
         get_loss_and_gradients (snd (generate_adversarial_example w K iterations s \<sigma>))
           = get_loss_and_gradients \<sigma> \<and>
         (\<exists>new. trace (snd (generate_adversarial_example w K iterations s \<sigma>)) = trace \<sigma> @ new \<and>
                AssignGlobal \<notin> set new \<and> (\<forall>x. Evaluate x \<notin> set new) \<and>
                (\<forall>r r'. Copy r r' \<notin> set new))"
proof (cases "initialize_model w")
  case (Inl e)
  then show ?thesis by (simp add: generate_aborts_at_initialize)
next
  case m: (Inr m)
  let ?\<sigma>0 = "\<sigma>\<lparr>trace := trace \<sigma> @ [SetLearningPhase 0, InitializeModel]\<rparr>"
  show ?thesis
  proof (cases "get_sink_to_bathtub_inputs w m ?\<sigma>0")
    case (Pair res \<sigma>1)
    show ?thesis
    proof (cases res)
      case (Inl e)
      then have "generate_adversarial_example w K iterations s \<sigma> = (Inl e, \<sigma>1)"
        using m Pair by (simp add: generate_aborts_with_inputs)
      moreover have "get_loss_and_gradients \<sigma>1 = get_loss_and_gradients \<sigma> \<and>
          (\<exists>new. trace \<sigma>1 = trace \<sigma> @ new \<and> AssignGlobal \<notin> set new \<and>
                 (\<forall>x. Evaluate x \<notin> set new) \<and> (\<forall>r r'. Copy r r' \<notin> set new))"
        using Pair Inl
        by (auto simp: get_sink_to_bathtub_inputs_eq split: sum.splits)
      ultimately show ?thesis by simp
    next
      case (Inr p)
      then obtain a b goal where ld: "load_image w SINK_IMAGE = Inr a"
        "load_image w BATHTUB_IMAGE = Inr b" "predict w m b = Inr goal"
        and p: "p = (next_ref \<sigma>, goal)"
        and \<sigma>1: "\<sigma>1 = \<sigma>\<lparr>heap := (heap \<sigma>)(next_ref \<sigma> := a), next_ref := Suc (next_ref \<sigma>),
                      trace := trace \<sigma> @ [SetLearningPhase 0, InitializeModel,
                         LoadImage SINK_IMAGE, LoadImage BATHTUB_IMAGE, Predict b]\<rparr>"
        using Pair by (auto simp: get_sink_to_bathtub_inputs_eq split: sum.splits)
      have gen: "generate_adversarial_example w K iterations s \<sigma> =
        bind (call_get_final_layer w m) (\<lambda>final_layer_output.
        bind (lift (K_gradients K (loss_tensor final_layer_output goal))) (\<lambda>gradients.
        bind (assign_global (K_function (loss_tensor final_layer_output goal)
                               (normalized_tensor (K_epsilon K) gradients))) (\<lambda>_.
        bind (copy (next_ref \<sigma>)) (\<lambda>original_image.
        bind (gradient_ascent (next_ref \<sigma>) iterations s) (\<lambda>altered_image.
        display w m original_image altered_image))))) \<sigma>1"
        using m Pair Inr p
        by (simp add: generate_adversarial_example_def call_initialize_model_def bind_assoc
            bind_Inr)
      show ?thesis
      proof (cases "get_final_layer w m")
        case (Inl e)
        then show ?thesis unfolding gen by (simp add: call_get_final_layer_apply \<sigma>1)
      next
        case fl: (Inr fl)
        show ?thesis
        proof (cases "K_gradients K (loss_tensor fl goal)")
          case (Inl e)
          then show ?thesis unfolding gen using fl
            by (simp add: call_get_final_layer_apply \<sigma>1)
        next
          case (Inr gr)
          then have False using assms m ld fl by blast
          then show ?thesis ..
        qed
      qed
    qed
  qed
qed

lemma split_after_unique:
  assumes "pre @ a # rest = p @ ev # q" and "ev \<notin> set pre" and "ev \<noteq> a"
  shows "\<exists>p'. p = pre @ a # p' \<and> rest = p' @ ev # q"
  using assms
proof (induction pre arbitrary: p)
  case Nil
  then show ?case by (cases p) auto
next
  case (Cons x pre)
  then show ?case by (cases p) auto
qed

text \<open>The run of the toy wrapper with two iterations and step size 1/2.\<close>

lemma toy_setup:
  "initialize_model toy_wrapper = Inr ()"
  "load_image toy_wrapper SINK_IMAGE = Inr \<lparr>shape = [1, 1, 1, 3], data = [4, 2, 1]\<rparr>"
  "load_image toy_wrapper BATHTUB_IMAGE = Inr \<lparr>shape = [1, 1, 1, 3], data = [0, 0, 0]\<rparr>"
  "predict toy_wrapper () \<lparr>shape = [1, 1, 1, 3], data = [0, 0, 0]\<rparr>
     = Inr \<lparr>shape = [1, 1, 1, 1], data = [0]\<rparr>"
  "get_final_layer toy_wrapper () = Inr (\<lambda>x. Inr \<lparr>shape = [1, 1, 1, 1], data = [sum_list (data x)]\<rparr>)"
  "K_gradients toy_backend l =
     Inr (\<lambda>x. Inr \<lparr>shape = shape x, data = map (\<lambda>v. 2 * sum_list (data x)) (data x)\<rparr>)"
  using image_paths_differ by (simp_all add: toy_wrapper_def toy_backend_def)

lemma toy_predict:
  "predict toy_wrapper () x = Inr \<lparr>shape = [1, 1, 1, 1], data = [sum_list (data x)]\<rparr>"
  by (simp add: toy_wrapper_def)

lemma toy_evaluator:
  "K_function
     (loss_tensor (\<lambda>x. Inr \<lparr>shape = [1, 1, 1, 1], data = [sum_list (data x)]\<rparr>)
        \<lparr>shape = [1, 1, 1, 1], data = [0]\<rparr>)
     (normalized_tensor (K_epsilon toy_backend)
        (\<lambda>x. Inr \<lparr>shape = shape x, data = map (\<lambda>v. 2 * sum_list (data x)) (data x)\<rparr>))
   = (\<lambda>x. Inr (sum_list (data x) * sum_list (data x),
               normalize (1 / 10000000)
                 \<lparr>shape = shape x, data = map (\<lambda>v. 2 * sum_list (data x)) (data x)\<rparr>))"
  by (simp add: fun_eq_iff K_function_def loss_tensor_def loss_value_def elementwise_def
      normalized_tensor_def K_sum_def K_square_def scale_factor_def K_prod_def K_cast_def
      K_shape_def toy_backend_def)

lemma toy_run:
  "fst (generate_adversarial_example toy_wrapper toy_backend 2 (1/2) init_state) = Inr () \<and>
   trace (snd (generate_adversarial_example toy_wrapper toy_backend 2 (1/2) init_state)) =
     [SetLearningPhase 0, InitializeModel, LoadImage SINK_IMAGE, LoadImage BATHTUB_IMAGE,
      Predict \<lparr>shape = [1, 1, 1, 3], data = [0, 0, 0]\<rparr>, GetFinalLayer,
      AssignGlobal, Copy 0 1,
      Evaluate \<lparr>shape = [1, 1, 1, 3], data = [4, 2, 1]\<rparr>, Print 0 49, Update 0,
      Evaluate \<lparr>shape = [1, 1, 1, 3], data = [7 / 2, 3 / 2, 1 / 2]\<rparr>, Print 1 (121 / 4), Update 0,
      Predict \<lparr>shape = [1, 1, 1, 3], data = [4, 2, 1]\<rparr>,
      Predict \<lparr>shape = [1, 1, 1, 3], data = [3, 1, 0]\<rparr>,
      Figure, Imshow \<lparr>shape = [1, 1, 3], data = [4, 2, 1]\<rparr>, Show,
      Figure, Imshow \<lparr>shape = [1, 1], data = [7]\<rparr>, Show,
      Figure, Imshow \<lparr>shape = [1, 1, 3], data = [3, 1, 0]\<rparr>, Show,
      Figure, Imshow \<lparr>shape = [1, 1], data = [4]\<rparr>, Show] \<and>
   heap (snd (generate_adversarial_example toy_wrapper toy_backend 2 (1/2) init_state)) 0
     = \<lparr>shape = [1, 1, 1, 3], data = [3, 1, 0]\<rparr> \<and>
   heap (snd (generate_adversarial_example toy_wrapper toy_backend 2 (1/2) init_state)) 1
     = \<lparr>shape = [1, 1, 1, 3], data = [4, 2, 1]\<rparr>"
proof -
  define x0 :: "real ndarray" where "x0 = \<lparr>shape = [1, 1, 1, 3], data = [4, 2, 1]\<rparr>"
  define x1 :: "real ndarray" where "x1 = \<lparr>shape = [1, 1, 1, 3], data = [7 / 2, 3 / 2, 1 / 2]\<rparr>"
  define x2 :: "real ndarray" where "x2 = \<lparr>shape = [1, 1, 1, 3], data = [3, 1, 0]\<rparr>"
  define bath :: "real ndarray" where "bath = \<lparr>shape = [1, 1, 1, 3], data = [0, 0, 0]\<rparr>"
  define L where "L = (\<lambda>x :: real ndarray. sum_list (data x) * sum_list (data x))"
  define G where "G = (\<lambda>x :: real ndarray. normalize (1 / 10000000)
                 \<lparr>shape = shape x, data = map (\<lambda>v. 2 * sum_list (data x)) (data x)\<rparr>)"
  define U where "U = sequential_update (1/2) G"
  define \<sigma>2 where "\<sigma>2 = init_state\<lparr>get_loss_and_gradients := Some (\<lambda>x. Inr (L x, G x)),
                heap := (heap init_state)(next_ref init_state := x0, Suc (next_ref init_state) := x0),
                next_ref := Suc (Suc (next_ref init_state)),
                trace := trace init_state @ setup_trace bath @
                  [AssignGlobal, Copy (next_ref init_state) (Suc (next_ref init_state))]\<rparr>"
  have n: "next_ref init_state = 0" by (simp add: init_state_def)
  have gen: "generate_adversarial_example toy_wrapper toy_backend 2 (1/2) init_state =
               bind (gradient_ascent 0 2 (1/2))
                    (\<lambda>altered_image. display toy_wrapper () 1 altered_image) \<sigma>2"
    using generate_setup_ok [OF toy_setup(1,2,3,4,5,6), where iterations = 2 and s = "1/2"
                               and \<sigma> = init_state]
    unfolding toy_evaluator \<sigma>2_def x0_def bath_def L_def G_def n by simp
  have u1: "U x0 = x1"
    by (simp add: U_def G_def x0_def x1_def sequential_update_def normalize_def divisor_def
        K_maximum_def K_mean_def K_abs_def)
  have u2: "U x1 = x2"
    by (simp add: U_def G_def x1_def x2_def sequential_update_def normalize_def divisor_def
        K_maximum_def K_mean_def K_abs_def)
  have l: "L x0 = 49" "L x1 = 121 / 4"
    by (simp_all add: L_def x0_def x1_def)
  have bound: "get_loss_and_gradients \<sigma>2 = Some (\<lambda>x. Inr (L x, G x))"
    by (simp add: \<sigma>2_def)
  have shp: "\<forall>x. shape (G x) = shape x"
    by (simp add: G_def normalize_def)
  have h2: "heap \<sigma>2 0 = x0" "heap \<sigma>2 (Suc 0) = x0" "trace \<sigma>2 = setup_trace bath @ [AssignGlobal, Copy 0 1]"
    by (simp_all add: \<sigma>2_def n init_state_def)
  have "gradient_ascent 0 2 (1/2) \<sigma>2 =
      (Inr 0, \<sigma>2\<lparr>heap := (heap \<sigma>2)(0 := (U ^^ nat 2) (heap \<sigma>2 0)),
                   trace := trace \<sigma>2 @
                       concat (map (\<lambda>t. [Evaluate ((U ^^ t) (heap \<sigma>2 0)),
                                           Print t (L ((U ^^ t) (heap \<sigma>2 0))), Update 0])
                                   [0..<nat 2])\<rparr>)"
    unfolding U_def using bound shp by (rule gradient_ascent_ok)
  also have "(U ^^ nat 2) (heap \<sigma>2 0) = x2"
    by (simp add: h2 numeral_2_eq_2 u1 u2)
  also have "concat (map (\<lambda>t. [Evaluate ((U ^^ t) (heap \<sigma>2 0)),
                                Print t (L ((U ^^ t) (heap \<sigma>2 0))), Update 0]) [0..<nat 2])
        = [Evaluate x0, Print 0 49, Update 0, Evaluate x1, Print 1 (121 / 4), Update 0]"
    by (simp add: h2 numeral_2_eq_2 upt_conv_Cons u1 l)
  finally have ga: "gradient_ascent 0 2 (1/2) \<sigma>2 =
      (Inr 0, \<sigma>2\<lparr>heap := (heap \<sigma>2)(0 := x2),
                   trace := trace \<sigma>2 @
                     [Evaluate x0, Print 0 49, Update 0, Evaluate x1, Print 1 (121 / 4), Update 0]\<rparr>)" .
  define \<sigma>3 where "\<sigma>3 = \<sigma>2\<lparr>heap := (heap \<sigma>2)(0 := x2),
                   trace := trace \<sigma>2 @
                     [Evaluate x0, Print 0 49, Update 0, Evaluate x1, Print 1 (121 / 4), Update 0]\<rparr>"
  have h3: "heap \<sigma>3 0 = x2" "heap \<sigma>3 (Suc 0) = x0"
    "trace \<sigma>3 = setup_trace bath @ [AssignGlobal, Copy 0 1,
        Evaluate x0, Print 0 49, Update 0, Evaluate x1, Print 1 (121 / 4), Update 0]"
    by (simp_all add: \<sigma>3_def h2)
  have d: "display toy_wrapper () 1 0 \<sigma>3 =
     (Inr (), \<sigma>3\<lparr>trace := trace \<sigma>3 @
        [Predict (heap \<sigma>3 1), Predict (heap \<sigma>3 0),
         Figure, Imshow \<lparr>shape = [1, 1, 3], data = [4, 2, 1]\<rparr>, Show,
         Figure, Imshow \<lparr>shape = [1, 1], data = [7]\<rparr>, Show,
         Figure, Imshow \<lparr>shape = [1, 1, 3], data = [3, 1, 0]\<rparr>, Show,
         Figure, Imshow \<lparr>shape = [1, 1], data = [4]\<rparr>, Show]\<rparr>)"
    by (rule display_ok [where oo = "\<lparr>shape = [1, 1, 1, 1], data = [7]\<rparr>"
                           and ao = "\<lparr>shape = [1, 1, 1, 1], data = [4]\<rparr>"])
       (simp_all add: h3 x0_def x2_def toy_predict shown_def getitem0_def getitem_axis2_def
          to_multichannel_def block_def)
  have "generate_adversarial_example toy_wrapper toy_backend 2 (1/2) init_state =
          display toy_wrapper () 1 0 \<sigma>3"
    unfolding gen \<sigma>3_def using ga by (simp add: bind_Inr)
  then show ?thesis
    unfolding d by (simp add: h3 setup_trace_def x0_def x1_def x2_def bath_def init_state_def)
qed

lemma loop_events_no_assignment:
  "list_all (loop_event r) xs \<Longrightarrow> AssignGlobal \<notin> set xs \<and> (\<forall>a b. Copy a b \<notin> set xs)"
  by (auto simp: list_all_iff)

lemma display_events_no_assignment:
  "list_all display_event xs \<Longrightarrow>
     AssignGlobal \<notin> set xs \<and> (\<forall>a b. Copy a b \<notin> set xs) \<and> (\<forall>x. Evaluate x \<notin> set xs)"
  by (auto simp: list_all_iff)

text \<open>A run whose set-up succeeds: the state when the loop ends, and what follows.\<close>

lemma generate_after_setup:
  assumes "initialize_model w = Inr m"
    and "load_image w SINK_IMAGE = Inr a"
    and "load_image w BATHTUB_IMAGE = Inr b"
    and "predict w m b = Inr goal"
    and "get_final_layer w m = Inr fl"
    and "K_gradients K (loss_tensor fl goal) = Inr gr"
  shows "\<exists>(res1 :: error + ref) \<sigma>3 loop.
           trace \<sigma>3 = trace \<sigma> @ setup_trace b @
                         [AssignGlobal, Copy (next_ref \<sigma>) (Suc (next_ref \<sigma>))] @ loop \<and>
           list_all (loop_event (next_ref \<sigma>)) loop \<and>
           get_loss_and_gradients \<sigma>3 =
             Some (K_function (loss_tensor fl goal) (normalized_tensor (K_epsilon K) gr)) \<and>
           heap \<sigma>3 (Suc (next_ref \<sigma>)) = a \<and>
           (case res1 of
              Inl e \<Rightarrow> generate_adversarial_example w K iterations s \<sigma> = (Inl e, \<sigma>3)
            | Inr r' \<Rightarrow> generate_adversarial_example w K iterations s \<sigma> =
                         display w m (Suc (next_ref \<sigma>)) (next_ref \<sigma>) \<sigma>3)"
proof -
  let ?r = "next_ref \<sigma>"
  let ?F = "K_function (loss_tensor fl goal) (normalized_tensor (K_epsilon K) gr)"
  let ?\<sigma>2 = "\<sigma>\<lparr>get_loss_and_gradients := Some ?F,
                heap := (heap \<sigma>)(?r := a, Suc ?r := a),
                next_ref := Suc (Suc ?r),
                trace := trace \<sigma> @ setup_trace b @ [AssignGlobal, Copy ?r (Suc ?r)]\<rparr>"
  have gen: "generate_adversarial_example w K iterations s \<sigma> =
               bind (gradient_ascent ?r iterations s)
                    (\<lambda>altered_image. display w m (Suc ?r) altered_image) ?\<sigma>2"
    using assms by (rule generate_setup_ok)
  obtain res1 \<sigma>3 where run: "gradient_ascent ?r iterations s ?\<sigma>2 = (res1, \<sigma>3)"
    by (cases "gradient_ascent ?r iterations s ?\<sigma>2")
  have frame: "loop_frame ?r ?\<sigma>2 \<sigma>3"
    using gradient_ascent_frame(1) [of ?r ?\<sigma>2 iterations s] run by simp
  then obtain loop where loop: "trace \<sigma>3 = trace ?\<sigma>2 @ loop" "list_all (loop_event ?r) loop"
    by (auto simp: loop_frame_def)
  have glob: "get_loss_and_gradients \<sigma>3 = Some ?F"
    using frame by (simp add: loop_frame_def)
  have orig: "heap \<sigma>3 (Suc ?r) = a"
    using frame by (simp add: loop_frame_def)
  have res: "case res1 of
              Inl e \<Rightarrow> generate_adversarial_example w K iterations s \<sigma> = (Inl e, \<sigma>3)
            | Inr r' \<Rightarrow> generate_adversarial_example w K iterations s \<sigma> =
                         display w m (Suc ?r) ?r \<sigma>3"
  proof (cases res1)
    case (Inl e)
    then show ?thesis using gen run by (simp add: bind_Inl)
  next
    case (Inr r')
    then have "r' = ?r"
      using gradient_ascent_frame(2) [of ?r iterations s ?\<sigma>2 r'] run by simp
    then show ?thesis using Inr gen run by (simp add: bind_Inr)
  qed
  show ?thesis
  proof (intro exI)
    show "trace \<sigma>3 = trace \<sigma> @ setup_trace b @ [AssignGlobal, Copy ?r (Suc ?r)] @ loop \<and>
           list_all (loop_event ?r) loop \<and>
           get_loss_and_gradients \<sigma>3 = Some ?F \<and>
           heap \<sigma>3 (Suc ?r) = a \<and>
           (case res1 of
              Inl e \<Rightarrow> generate_adversarial_example w K iterations s \<sigma> = (Inl e, \<sigma>3)
            | Inr r' \<Rightarrow> generate_adversarial_example w K iterations s \<sigma> =
                         display w m (Suc ?r) ?r \<sigma>3)"
      using loop glob orig res by simp
  qed
qed

text \<open>
  Claim C9. In every run of \<open>generate_adversarial_example\<close>, with \<open>new\<close> the events of
  the run: the global is assigned at most once; wherever the copy that precedes the loop
  or an evaluation of the global by the loop occurs, exactly one assignment has happened
  before it and none happens after it; a run that returns has assigned the global
  exactly once; once assigned, the global is still bound when the run ends. (A run in
  which a set-up step raises ends before the assignment and leaves the global as it
  was.)
\<close>

theorem global_assigned_once_before_loop:
  assumes "generate_adversarial_example w K iterations step_size \<sigma> = (res, \<sigma>')"
  shows "\<exists>new. trace \<sigma>' = trace \<sigma> @ new \<and>
           count_list new AssignGlobal \<le> 1 \<and>
           (\<forall>pre ev post.
              new = pre @ ev # post \<and> ((\<exists>r r'. ev = Copy r r') \<or> (\<exists>x. ev = Evaluate x)) \<longrightarrow>
              count_list pre AssignGlobal = 1 \<and> count_list post AssignGlobal = 0) \<and>
           (res = Inr () \<longrightarrow> count_list new AssignGlobal = 1) \<and>
           (AssignGlobal \<in> set new \<longrightarrow> get_loss_and_gradients \<sigma>' \<noteq> None) \<and>
           (AssignGlobal \<notin> set new \<longrightarrow> get_loss_and_gradients \<sigma>' = get_loss_and_gradients \<sigma>)"
proof (cases "\<exists>m a b goal fl gr.
      initialize_model w = Inr m \<and> load_image w SINK_IMAGE = Inr a \<and>
      load_image w BATHTUB_IMAGE = Inr b \<and> predict w m b = Inr goal \<and>
      get_final_layer w m = Inr fl \<and> K_gradients K (loss_tensor fl goal) = Inr gr")
  case False
  from generate_setup_fails [OF False, of iterations step_size \<sigma>] assms
  obtain e new where "res = Inl e" "get_loss_and_gradients \<sigma>' = get_loss_and_gradients \<sigma>"
    "trace \<sigma>' = trace \<sigma> @ new" "AssignGlobal \<notin> set new"
    "\<forall>x. Evaluate x \<notin> set new" "\<forall>r r'. Copy r r' \<notin> set new"
    by auto
  note abort = this
  have "ev \<in> set new" if "new = pre @ ev # post" for pre ev post
    using that by simp
  then have "\<forall>pre ev post.
              new = pre @ ev # post \<and> ((\<exists>r r'. ev = Copy r r') \<or> (\<exists>x. ev = Evaluate x)) \<longrightarrow>
              count_list pre AssignGlobal = 1 \<and> count_list post AssignGlobal = 0"
    using abort(5,6) by blast
  moreover have "count_list new AssignGlobal \<le> 1"
    using abort(4) by (simp add: count_list_0_iff)
  ultimately show ?thesis
    using abort(1,2,3,4) by (intro exI [of _ new]) simp
next
  case True
  then obtain m a b goal fl gr where six:
    "initialize_model w = Inr m" "load_image w SINK_IMAGE = Inr a"
    "load_image w BATHTUB_IMAGE = Inr b" "predict w m b = Inr goal"
    "get_final_layer w m = Inr fl" "K_gradients K (loss_tensor fl goal) = Inr gr"
    by blast
  let ?r = "next_ref \<sigma>"
  from generate_after_setup [OF six, of \<sigma> iterations step_size]
  obtain res1 :: "error + ref" and \<sigma>3 loop where
    tr3: "trace \<sigma>3 = trace \<sigma> @ setup_trace b @ [AssignGlobal, Copy ?r (Suc ?r)] @ loop"
    and loop: "list_all (loop_event ?r) loop"
    and glob3: "get_loss_and_gradients \<sigma>3 \<noteq> None"
    and res1: "case res1 of
              Inl e \<Rightarrow> generate_adversarial_example w K iterations step_size \<sigma> = (Inl e, \<sigma>3)
            | Inr r' \<Rightarrow> generate_adversarial_example w K iterations step_size \<sigma> =
                         display w m (Suc ?r) ?r \<sigma>3"
    by auto
  have "\<exists>disp. trace \<sigma>' = trace \<sigma>3 @ disp \<and> list_all display_event disp \<and>
          get_loss_and_gradients \<sigma>' = get_loss_and_gradients \<sigma>3"
  proof (cases res1)
    case (Inl e)
    then have "\<sigma>' = \<sigma>3" using res1 assms by simp
    then show ?thesis by (intro exI [of _ "[]"]) simp
  next
    case (Inr r')
    then have "display w m (Suc ?r) ?r \<sigma>3 = (res, \<sigma>')" using res1 assms by simp
    then have "\<sigma>' = snd (display w m (Suc ?r) ?r \<sigma>3)" by simp
    then show ?thesis using display_frame [of w m "Suc ?r" ?r \<sigma>3] by auto
  qed
  then obtain disp where disp: "trace \<sigma>' = trace \<sigma>3 @ disp" "list_all display_event disp"
    and glob: "get_loss_and_gradients \<sigma>' \<noteq> None"
    using glob3 by auto
  define rest where "rest = Copy ?r (Suc ?r) # loop @ disp"
  define new where "new = setup_trace b @ AssignGlobal # rest"
  have tr: "trace \<sigma>' = trace \<sigma> @ new"
    using tr3 disp(1) by (simp add: new_def rest_def)
  have pre_clean: "AssignGlobal \<notin> set (setup_trace b)"
    "\<And>ev. (\<exists>r r'. ev = Copy r r') \<or> (\<exists>x. ev = Evaluate x) \<Longrightarrow> ev \<notin> set (setup_trace b)"
    by (auto simp: setup_trace_def)
  have rest_clean: "AssignGlobal \<notin> set rest"
    using loop_events_no_assignment [OF loop] display_events_no_assignment [OF disp(2)]
    by (simp add: rest_def)
  have once: "count_list new AssignGlobal = 1"
    using pre_clean(1) rest_clean by (simp add: new_def count_list_0_iff)
  have order: "count_list pre AssignGlobal = 1 \<and> count_list post AssignGlobal = 0"
    if split: "new = pre @ ev # post" and ev: "(\<exists>r r'. ev = Copy r r') \<or> (\<exists>x. ev = Evaluate x)"
    for pre ev post
  proof -
    have eq: "setup_trace b @ AssignGlobal # rest = pre @ ev # post"
      using split by (simp add: new_def)
    have notin: "ev \<notin> set (setup_trace b)" using ev by (rule pre_clean(2))
    have neq: "ev \<noteq> AssignGlobal" using ev by auto
    from split_after_unique [OF eq notin neq]
    obtain p' where p': "pre = setup_trace b @ AssignGlobal # p'" "rest = p' @ ev # post"
      by blast
    have "set p' \<subseteq> set rest" "set post \<subseteq> set rest"
      unfolding p'(2) by auto
    then have "AssignGlobal \<notin> set p'" "AssignGlobal \<notin> set post"
      using rest_clean by blast+
    then show ?thesis using pre_clean(1) unfolding p'(1) by (simp add: count_list_0_iff)
  qed
  then have ord: "\<forall>pre ev post.
              new = pre @ ev # post \<and> ((\<exists>r r'. ev = Copy r r') \<or> (\<exists>x. ev = Evaluate x)) \<longrightarrow>
              count_list pre AssignGlobal = 1 \<and> count_list post AssignGlobal = 0"
    by blast
  have mem: "AssignGlobal \<in> set new" by (simp add: new_def)
  show ?thesis
  proof (intro exI [of _ new] conjI impI)
    show "trace \<sigma>' = trace \<sigma> @ new" by (rule tr)
    show "count_list new AssignGlobal \<le> 1" using once by simp
    show "\<forall>pre ev post.
              new = pre @ ev # post \<and> ((\<exists>r r'. ev = Copy r r') \<or> (\<exists>x. ev = Evaluate x)) \<longrightarrow>
              count_list pre AssignGlobal = 1 \<and> count_list post AssignGlobal = 0"
      by (rule ord)
    show "count_list new AssignGlobal = 1" by (rule once)
    show "get_loss_and_gradients \<sigma>' \<noteq> None" by (rule glob)
    show "get_loss_and_gradients \<sigma>' = get_loss_and_gradients \<sigma>" if "AssignGlobal \<notin> set new"
      using that mem by simp
  qed
qed

lemma shown_input:
  "shown img True = Inr x \<Longrightarrow> \<exists>i. getitem0 img = Inr i \<and> to_multichannel i = Inr x"
  by (auto simp: shown_def split: sum.splits)

lemma shown_output:
  "shown img False = Inr x \<Longrightarrow> \<exists>i. getitem0 img = Inr i \<and> getitem_axis2 i 0 = Inr x"
  by (auto simp: shown_def split: sum.splits)

text \<open>
  Claim C7. In every run of \<open>generate_adversarial_example\<close> that returns: the array object
  of the original image, made by the copy before the loop, still holds the image as
  loaded when the run ends, while the loop has updated only the object of the input
  image, which is the altered image; \<open>display\<close> predicts on the loaded image and on the
  altered image and then renders, in this order, the loaded image, the depth predicted
  for it, the altered image and the depth predicted for it.
\<close>

theorem original_image_is_the_loaded_image:
  assumes "generate_adversarial_example w K iterations step_size \<sigma> = (Inr (), \<sigma>')"
  shows "\<exists>model loaded altered original_output altered_output pre loop i1 x1 i2 x2 i3 x3 i4 x4.
           initialize_model w = Inr model \<and>
           load_image w SINK_IMAGE = Inr loaded \<and>
           heap \<sigma>' (Suc (next_ref \<sigma>)) = loaded \<and>
           heap \<sigma>' (next_ref \<sigma>) = altered \<and>
           predict w model loaded = Inr original_output \<and>
           predict w model altered = Inr altered_output \<and>
           getitem0 loaded = Inr i1 \<and> to_multichannel i1 = Inr x1 \<and>
           getitem0 original_output = Inr i2 \<and> getitem_axis2 i2 0 = Inr x2 \<and>
           getitem0 altered = Inr i3 \<and> to_multichannel i3 = Inr x3 \<and>
           getitem0 altered_output = Inr i4 \<and> getitem_axis2 i4 0 = Inr x4 \<and>
           trace \<sigma>' = trace \<sigma> @ pre @ [Copy (next_ref \<sigma>) (Suc (next_ref \<sigma>))] @ loop @
             [Predict loaded, Predict altered,
              Figure, Imshow x1, Show, Figure, Imshow x2, Show,
              Figure, Imshow x3, Show, Figure, Imshow x4, Show] \<and>
           list_all (loop_event (next_ref \<sigma>)) loop"
proof -
  let ?r = "next_ref \<sigma>"
  have "\<exists>m a b goal fl gr.
      initialize_model w = Inr m \<and> load_image w SINK_IMAGE = Inr a \<and>
      load_image w BATHTUB_IMAGE = Inr b \<and> predict w m b = Inr goal \<and>
      get_final_layer w m = Inr fl \<and> K_gradients K (loss_tensor fl goal) = Inr gr"
  proof (rule ccontr)
    assume "\<not> ?thesis"
    from generate_setup_fails [OF this, of iterations step_size \<sigma>] assms
    show False by simp
  qed
  then obtain m a b goal fl gr where six:
    "initialize_model w = Inr m" "load_image w SINK_IMAGE = Inr a"
    "load_image w BATHTUB_IMAGE = Inr b" "predict w m b = Inr goal"
    "get_final_layer w m = Inr fl" "K_gradients K (loss_tensor fl goal) = Inr gr"
    by blast
  from generate_after_setup [OF six, of \<sigma> iterations step_size]
  obtain res1 :: "error + ref" and \<sigma>3 loop where
    tr3: "trace \<sigma>3 = trace \<sigma> @ setup_trace b @ [AssignGlobal, Copy ?r (Suc ?r)] @ loop"
    and loop: "list_all (loop_event ?r) loop"
    and orig: "heap \<sigma>3 (Suc ?r) = a"
    and res1: "case res1 of
              Inl e \<Rightarrow> generate_adversarial_example w K iterations step_size \<sigma> = (Inl e, \<sigma>3)
            | Inr r' \<Rightarrow> generate_adversarial_example w K iterations step_size \<sigma> =
                         display w m (Suc ?r) ?r \<sigma>3"
    by auto
  have disp: "display w m (Suc ?r) ?r \<sigma>3 = (Inr (), \<sigma>')"
    using res1 assms by (cases res1) simp_all
  then have "fst (display w m (Suc ?r) ?r \<sigma>3) = Inr ()" by simp
  from display_returns [OF this] orig
  obtain oo ao x1 x2 x3 x4 where p:
    "predict w m a = Inr oo" "predict w m (heap \<sigma>3 ?r) = Inr ao"
    and s: "shown a True = Inr x1" "shown oo False = Inr x2"
      "shown (heap \<sigma>3 ?r) True = Inr x3" "shown ao False = Inr x4"
    by auto
  have "display w m (Suc ?r) ?r \<sigma>3 =
          (Inr (), \<sigma>3\<lparr>trace := trace \<sigma>3 @
              [Predict (heap \<sigma>3 (Suc ?r)), Predict (heap \<sigma>3 ?r),
               Figure, Imshow x1, Show, Figure, Imshow x2, Show,
               Figure, Imshow x3, Show, Figure, Imshow x4, Show]\<rparr>)"
    using p s orig by (intro display_ok) simp_all
  with disp orig have \<sigma>': "\<sigma>' = \<sigma>3\<lparr>trace := trace \<sigma>3 @
              [Predict a, Predict (heap \<sigma>3 ?r),
               Figure, Imshow x1, Show, Figure, Imshow x2, Show,
               Figure, Imshow x3, Show, Figure, Imshow x4, Show]\<rparr>"
    by simp
  from shown_input [OF s(1)] obtain i1 where i1: "getitem0 a = Inr i1" "to_multichannel i1 = Inr x1"
    by blast
  from shown_output [OF s(2)] obtain i2 where i2: "getitem0 oo = Inr i2" "getitem_axis2 i2 0 = Inr x2"
    by blast
  from shown_input [OF s(3)] obtain i3
    where i3: "getitem0 (heap \<sigma>3 ?r) = Inr i3" "to_multichannel i3 = Inr x3"
    by blast
  from shown_output [OF s(4)] obtain i4 where i4: "getitem0 ao = Inr i4" "getitem_axis2 i4 0 = Inr x4"
    by blast
  have tr: "trace \<sigma>' = trace \<sigma> @ (setup_trace b @ [AssignGlobal]) @ [Copy ?r (Suc ?r)] @ loop @
             [Predict a, Predict (heap \<sigma>3 ?r),
              Figure, Imshow x1, Show, Figure, Imshow x2, Show,
              Figure, Imshow x3, Show, Figure, Imshow x4, Show]"
    using \<sigma>' tr3 by simp
  have h: "heap \<sigma>' (Suc ?r) = a" "heap \<sigma>' ?r = heap \<sigma>3 ?r"
    using \<sigma>' orig by simp_all
  show ?thesis
  proof (intro exI conjI)
    show "initialize_model w = Inr m" by (rule six(1))
    show "load_image w SINK_IMAGE = Inr a" by (rule six(2))
    show "heap \<sigma>' (Suc ?r) = a" by (rule h(1))
    show "heap \<sigma>' ?r = heap \<sigma>3 ?r" by (rule h(2))
    show "predict w m a = Inr oo" by (rule p(1))
    show "predict w m (heap \<sigma>3 ?r) = Inr ao" by (rule p(2))
    show "getitem0 a = Inr i1" by (rule i1(1))
    show "to_multichannel i1 = Inr x1" by (rule i1(2))
    show "getitem0 oo = Inr i2" by (rule i2(1))
    show "getitem_axis2 i2 0 = Inr x2" by (rule i2(2))
    show "getitem0 (heap \<sigma>3 ?r) = Inr i3" by (rule i3(1))
    show "to_multichannel i3 = Inr x3" by (rule i3(2))
    show "getitem0 ao = Inr i4" by (rule i4(1))
    show "getitem_axis2 i4 0 = Inr x4" by (rule i4(2))
    show "trace \<sigma>' = trace \<sigma> @ (setup_trace b @ [AssignGlobal]) @ [Copy ?r (Suc ?r)] @ loop @
             [Predict a, Predict (heap \<sigma>3 ?r),
              Figure, Imshow x1, Show, Figure, Imshow x2, Show,
              Figure, Imshow x3, Show, Figure, Imshow x4, Show]"
      by (rule tr)
    show "list_all (loop_event ?r) loop" by (rule loop)
  qed
qed

lemma toy_run_returns:
  "generate_adversarial_example toy_wrapper toy_backend 2 (1/2) init_state =
     (Inr (), snd (generate_adversarial_example toy_wrapper toy_backend 2 (1/2) init_state))"
  using toy_run by (simp add: prod_eq_iff)

theorem global_assigned_once_before_loop_witness:
  "generate_adversarial_example toy_wrapper toy_backend 2 (1/2) init_state =
     (Inr (), snd (generate_adversarial_example toy_wrapper toy_backend 2 (1/2) init_state)) \<and>
   (\<exists>new. trace (snd (generate_adversarial_example toy_wrapper toy_backend 2 (1/2) init_state))
            = trace init_state @ new \<and>
      count_list new AssignGlobal \<le> 1 \<and>
      (\<forall>pre ev post.
         new = pre @ ev # post \<and> ((\<exists>r r'. ev = Copy r r') \<or> (\<exists>x. ev = Evaluate x)) \<longrightarrow>
         count_list pre AssignGlobal = 1 \<and> count_list post AssignGlobal = 0) \<and>
      ((Inr () :: error + unit) = Inr () \<longrightarrow> count_list new AssignGlobal = 1) \<and>
      (AssignGlobal \<in> set new \<longrightarrow>
         get_loss_and_gradients
           (snd (generate_adversarial_example toy_wrapper toy_backend 2 (1/2) init_state)) \<noteq> None) \<and>
      (AssignGlobal \<notin> set new \<longrightarrow>
         get_loss_and_gradients
           (snd (generate_adversarial_example toy_wrapper toy_backend 2 (1/2) init_state))
         = get_loss_and_gradients init_state))"
proof (intro conjI)
  show "generate_adversarial_example toy_wrapper toy_backend 2 (1/2) init_state =
     (Inr (), snd (generate_adversarial_example toy_wrapper toy_backend 2 (1/2) init_state))"
    by (rule toy_run_returns)
  show "\<exists>new. trace (snd (generate_adversarial_example toy_wrapper toy_backend 2 (1/2) init_state))
            = trace init_state @ new \<and>
      count_list new AssignGlobal \<le> 1 \<and>
      (\<forall>pre ev post.
         new = pre @ ev # post \<and> ((\<exists>r r'. ev = Copy r r') \<or> (\<exists>x. ev = Evaluate x)) \<longrightarrow>
         count_list pre AssignGlobal = 1 \<and> count_list post AssignGlobal = 0) \<and>
      ((Inr () :: error + unit) = Inr () \<longrightarrow> count_list new AssignGlobal = 1) \<and>
      (AssignGlobal \<in> set new \<longrightarrow>
         get_loss_and_gradients
           (snd (generate_adversarial_example toy_wrapper toy_backend 2 (1/2) init_state)) \<noteq> None) \<and>
      (AssignGlobal \<notin> set new \<longrightarrow>
         get_loss_and_gradients
           (snd (generate_adversarial_example toy_wrapper toy_backend 2 (1/2) init_state))
         = get_loss_and_gradients init_state)"
    by (rule global_assigned_once_before_loop [OF toy_run_returns])
qed

theorem original_image_is_the_loaded_image_witness:
  "generate_adversarial_example toy_wrapper toy_backend 2 (1/2) init_state =
     (Inr (), snd (generate_adversarial_example toy_wrapper toy_backend 2 (1/2) init_state)) \<and>
   heap (snd (generate_adversarial_example toy_wrapper toy_backend 2 (1/2) init_state)) 0
     = \<lparr>shape = [1, 1, 1, 3], data = [3, 1, 0]\<rparr> \<and>
   heap (snd (generate_adversarial_example toy_wrapper toy_backend 2 (1/2) init_state)) 1
     = \<lparr>shape = [1, 1, 1, 3], data = [4, 2, 1]\<rparr> \<and>
   (\<exists>model loaded altered original_output altered_output pre loop i1 x1 i2 x2 i3 x3 i4 x4.
      initialize_model toy_wrapper = Inr model \<and>
      load_image toy_wrapper SINK_IMAGE = Inr loaded \<and>
      heap (snd (generate_adversarial_example toy_wrapper toy_backend 2 (1/2) init_state))
        (Suc (next_ref init_state)) = loaded \<and>
      heap (snd (generate_adversarial_example toy_wrapper toy_backend 2 (1/2) init_state))
        (next_ref init_state) = altered \<and>
      predict toy_wrapper model loaded = Inr original_output \<and>
      predict toy_wrapper model altered = Inr altered_output \<and>
      getitem0 loaded = Inr i1 \<and> to_multichannel i1 = Inr x1 \<and>
      getitem0 original_output = Inr i2 \<and> getitem_axis2 i2 0 = Inr x2 \<and>
      getitem0 altered = Inr i3 \<and> to_multichannel i3 = Inr x3 \<and>
      getitem0 altered_output = Inr i4 \<and> getitem_axis2 i4 0 = Inr x4 \<and>
      trace (snd (generate_adversarial_example toy_wrapper toy_backend 2 (1/2) init_state)) =
        trace init_state @ pre @ [Copy (next_ref init_state) (Suc (next_ref init_state))] @ loop @
          [Predict loaded, Predict altered,
           Figure, Imshow x1, Show, Figure, Imshow x2, Show,
           Figure, Imshow x3, Show, Figure, Imshow x4, Show] \<and>
      list_all (loop_event (next_ref init_state)) loop)"
proof (intro conjI)
  show "generate_adversarial_example toy_wrapper toy_backend 2 (1/2) init_state =
     (Inr (), snd (generate_adversarial_example toy_wrapper toy_backend 2 (1/2) init_state))"
    by (rule toy_run_returns)
  show "heap (snd (generate_adversarial_example toy_wrapper toy_backend 2 (1/2) init_state)) 0
     = \<lparr>shape = [1, 1, 1, 3], data = [3, 1, 0]\<rparr>"
    using toy_run by simp
  show "heap (snd (generate_adversarial_example toy_wrapper toy_backend 2 (1/2) init_state)) 1
     = \<lparr>shape = [1, 1, 1, 3], data = [4, 2, 1]\<rparr>"
    using toy_run by simp
  show "\<exists>model loaded altered original_output altered_output pre loop i1 x1 i2 x2 i3 x3 i4 x4.
      initialize_model toy_wrapper = Inr model \<and>
      load_image toy_wrapper SINK_IMAGE = Inr loaded \<and>
      heap (snd (generate_adversarial_example toy_wrapper toy_backend 2 (1/2) init_state))
        (Suc (next_ref init_state)) = loaded \<and>
      heap (snd (generate_adversarial_example toy_wrapper toy_backend 2 (1/2) init_state))
        (next_ref init_state) = altered \<and>
      predict toy_wrapper model loaded = Inr original_output \<and>
      predict toy_wrapper model altered = Inr altered_output \<and>
      getitem0 loaded = Inr i1 \<and> to_multichannel i1 = Inr x1 \<and>
      getitem0 original_output = Inr i2 \<and> getitem_axis2 i2 0 = Inr x2 \<and>
      getitem0 altered = Inr i3 \<and> to_multichannel i3 = Inr x3 \<and>
      getitem0 altered_output = Inr i4 \<and> getitem_axis2 i4 0 = Inr x4 \<and>
      trace (snd (generate_adversarial_example toy_wrapper toy_backend 2 (1/2) init_state)) =
        trace init_state @ pre @ [Copy (next_ref init_state) (Suc (next_ref init_state))] @ loop @
          [Predict loaded, Predict altered,
           Figure, Imshow x1, Show, Figure, Imshow x2, Show,
           Figure, Imshow x3, Show, Figure, Imshow x4, Show] \<and>
      list_all (loop_event (next_ref init_state)) loop"
    by (rule original_image_is_the_loaded_image [OF toy_run_returns])
qed


end
